theory Spec2Isabelle
  imports Main
begin

section \<open>Python strings\<close>

text \<open>
  A Python \<open>str\<close> is a sequence of Unicode code points: slicing, \<open>len\<close>, the
  regular-expression character classes and \<open>in\<close> all count code points. The strings of
  \<open>holy_repair.py\<close> are Korean, so a string is modelled as the list of its code points
  (natural numbers), not as a list of bytes.
\<close>

type_synonym uchar = nat
type_synonym ustr = "uchar list"

text \<open>The string literals of the source, each with its code points.\<close>

definition s_ojeon :: ustr where
  "s_ojeon = [50724, 51204]"  \<comment> \<open>ojeon, the AM marker: U+C624 U+C804\<close>

definition s_ohu :: ustr where
  "s_ohu = [50724, 54980]"  \<comment> \<open>ohu, the PM marker: U+C624 U+D6C4\<close>

definition s_wol :: ustr where
  "s_wol = [50900]"  \<comment> \<open>wol, Monday: U+C6D4\<close>

definition s_hwa :: ustr where
  "s_hwa = [54868]"  \<comment> \<open>hwa, Tuesday: U+D654\<close>

definition s_su :: ustr where
  "s_su = [49688]"  \<comment> \<open>su, Wednesday: U+C218\<close>

definition s_mok :: ustr where
  "s_mok = [47785]"  \<comment> \<open>mok, Thursday: U+BAA9\<close>

definition s_geum :: ustr where
  "s_geum = [44552]"  \<comment> \<open>geum, Friday: U+AE08\<close>

definition s_to :: ustr where
  "s_to = [53664]"  \<comment> \<open>to, Saturday: U+D1A0\<close>

definition s_il :: ustr where
  "s_il = [51068]"  \<comment> \<open>il, Sunday (short form): U+C77C\<close>

definition s_juil :: ustr where
  "s_juil = [51452, 51068]"  \<comment> \<open>juil, Sunday: U+C8FC U+C77C\<close>

definition s_maeil :: ustr where
  "s_maeil = [47588, 51068]"  \<comment> \<open>maeil, daily: U+B9E4 U+C77C\<close>

definition s_yoil :: ustr where
  "s_yoil = [50836, 51068]"  \<comment> \<open>yoil, the day-of-week suffix: U+C694 U+C77C\<close>

definition s_toyoil :: ustr where
  "s_toyoil = [53664, 50836, 51068]"  \<comment> \<open>toyoil, Saturday (long form): U+D1A0 U+C694 U+C77C\<close>

definition s_iryoil :: ustr where
  "s_iryoil = [51068, 50836, 51068]"  \<comment> \<open>iryoil, Sunday (long form): U+C77C U+C694 U+C77C\<close>

definition s_marker_juil :: ustr where
  "s_marker_juil = [91, 51452, 51068, 48120, 49324, 93]"  \<comment> \<open>[juil-misa], the Sunday section marker: U+005B U+C8FC U+C77C U+BBF8 U+C0AC U+005D\<close>

definition s_marker_pyeongil :: ustr where
  "s_marker_pyeongil = [91, 54217, 51068, 48120, 49324, 93]"  \<comment> \<open>[pyeongil-misa], the weekday section marker: U+005B U+D3C9 U+C77C U+BBF8 U+C0AC U+005D\<close>

definition s_huwonhoe :: ustr where
  "s_huwonhoe = [54980, 50896, 54924]"  \<comment> \<open>huwonhoe, support group: U+D6C4 U+C6D0 U+D68C\<close>

definition s_gyori :: ustr where
  "s_gyori = [44368, 47532]"  \<comment> \<open>gyori, catechism: U+AD50 U+B9AC\<close>

definition s_gyojeongsamok :: ustr where
  "s_gyojeongsamok = [44368, 51221, 49324, 47785]"  \<comment> \<open>gyojeong-samok, correctional ministry: U+AD50 U+C815 U+C0AC U+BAA9\<close>

definition s_gyojung :: ustr where
  "s_gyojung = [44368, 51473]"  \<comment> \<open>gyojung: U+AD50 U+C911\<close>

definition s_cheongnyeon :: ustr where
  "s_cheongnyeon = [52397, 45380]"  \<comment> \<open>cheongnyeon: U+CCAD U+B144\<close>

definition s_cheongsonyeon :: ustr where
  "s_cheongsonyeon = [52397, 49548, 45380]"  \<comment> \<open>cheongsonyeon: U+CCAD U+C18C U+B144\<close>

definition s_toyo :: ustr where
  "s_toyo = [53664, 50836]"  \<comment> \<open>toyo: U+D1A0 U+C694\<close>

definition s_teukjeon :: ustr where
  "s_teukjeon = [53945, 51204]"  \<comment> \<open>teukjeon: U+D2B9 U+C804\<close>

definition s_pyeongil :: ustr where
  "s_pyeongil = [54217, 51068]"  \<comment> \<open>pyeongil: U+D3C9 U+C77C\<close>

definition s_misa_suffix :: ustr where
  "s_misa_suffix = [32, 48120, 49324]"  \<comment> \<open>' misa' with its leading space: U+0020 U+BBF8 U+C0AC\<close>

definition s_seongdang :: ustr where
  "s_seongdang = [49457, 45817]"  \<comment> \<open>seongdang, the parish suffix: U+C131 U+B2F9\<close>

definition s_cheonjugyo :: ustr where
  "s_cheonjugyo = [52380, 51452, 44368]"  \<comment> \<open>cheonjugyo: U+CC9C U+C8FC U+AD50\<close>

definition s_seoul :: ustr where
  "s_seoul = [49436, 50872]"  \<comment> \<open>Seoul: U+C11C U+C6B8\<close>

definition s_daegu :: ustr where
  "s_daegu = [45824, 44396]"  \<comment> \<open>Daegu: U+B300 U+AD6C\<close>

definition s_gwangju :: ustr where
  "s_gwangju = [44305, 51452]"  \<comment> \<open>Gwangju: U+AD11 U+C8FC\<close>

definition s_jeju :: ustr where
  "s_jeju = [51228, 51452]"  \<comment> \<open>Jeju: U+C81C U+C8FC\<close>

definition s_daejeon :: ustr where
  "s_daejeon = [45824, 51204]"  \<comment> \<open>Daejeon: U+B300 U+C804\<close>

definition s_sejong :: ustr where
  "s_sejong = [49464, 51333]"  \<comment> \<open>Sejong: U+C138 U+C885\<close>

definition s_chungnam :: ustr where
  "s_chungnam = [52649, 45224]"  \<comment> \<open>Chungnam: U+CDA9 U+B0A8\<close>

definition s_chungcheongnamdo :: ustr where
  "s_chungcheongnamdo = [52649, 52397, 45224, 46020]"  \<comment> \<open>Chungcheongnam-do: U+CDA9 U+CCAD U+B0A8 U+B3C4\<close>

definition s_busan :: ustr where
  "s_busan = [48512, 49328]"  \<comment> \<open>Busan: U+BD80 U+C0B0\<close>

definition s_incheon :: ustr where
  "s_incheon = [51064, 52380]"  \<comment> \<open>Incheon: U+C778 U+CC9C\<close>

definition s_jeonbuk :: ustr where
  "s_jeonbuk = [51204, 48513]"  \<comment> \<open>Jeonbuk: U+C804 U+BD81\<close>

definition s_jeollabukdo :: ustr where
  "s_jeollabukdo = [51204, 46972, 48513, 46020]"  \<comment> \<open>Jeollabuk-do: U+C804 U+B77C U+BD81 U+B3C4\<close>

definition s_chungbuk :: ustr where
  "s_chungbuk = [52649, 48513]"  \<comment> \<open>Chungbuk: U+CDA9 U+BD81\<close>

definition s_chungcheongbukdo :: ustr where
  "s_chungcheongbukdo = [52649, 52397, 48513, 46020]"  \<comment> \<open>Chungcheongbuk-do: U+CDA9 U+CCAD U+BD81 U+B3C4\<close>

definition s_gangwon :: ustr where
  "s_gangwon = [44053, 50896]"  \<comment> \<open>Gangwon: U+AC15 U+C6D0\<close>

definition s_gangwondo :: ustr where
  "s_gangwondo = [44053, 50896, 46020]"  \<comment> \<open>Gangwon-do: U+AC15 U+C6D0 U+B3C4\<close>

definition s_wonju :: ustr where
  "s_wonju = [50896, 51452]"  \<comment> \<open>Wonju: U+C6D0 U+C8FC\<close>

definition s_gyeonggi :: ustr where
  "s_gyeonggi = [44221, 44592]"  \<comment> \<open>Gyeonggi: U+ACBD U+AE30\<close>

definition s_suwon :: ustr where
  "s_suwon = [49688, 50896]"  \<comment> \<open>Suwon: U+C218 U+C6D0\<close>

definition s_seongnam :: ustr where
  "s_seongnam = [49457, 45224]"  \<comment> \<open>Seongnam: U+C131 U+B0A8\<close>

definition s_yongin :: ustr where
  "s_yongin = [50857, 51064]"  \<comment> \<open>Yongin: U+C6A9 U+C778\<close>

definition s_anyang :: ustr where
  "s_anyang = [50504, 50577]"  \<comment> \<open>Anyang: U+C548 U+C591\<close>

definition s_ansan :: ustr where
  "s_ansan = [50504, 49328]"  \<comment> \<open>Ansan: U+C548 U+C0B0\<close>

definition s_hwaseong :: ustr where
  "s_hwaseong = [54868, 49457]"  \<comment> \<open>Hwaseong: U+D654 U+C131\<close>

definition s_pyeongtaek :: ustr where
  "s_pyeongtaek = [54217, 53469]"  \<comment> \<open>Pyeongtaek: U+D3C9 U+D0DD\<close>

definition s_goyang :: ustr where
  "s_goyang = [44256, 50577]"  \<comment> \<open>Goyang: U+ACE0 U+C591\<close>

definition s_uijeongbu :: ustr where
  "s_uijeongbu = [51032, 51221, 48512]"  \<comment> \<open>Uijeongbu: U+C758 U+C815 U+BD80\<close>

definition s_paju :: ustr where
  "s_paju = [54028, 51452]"  \<comment> \<open>Paju: U+D30C U+C8FC\<close>

definition s_namyangju :: ustr where
  "s_namyangju = [45224, 50577, 51452]"  \<comment> \<open>Namyangju: U+B0A8 U+C591 U+C8FC\<close>

definition s_guri :: ustr where
  "s_guri = [44396, 47532]"  \<comment> \<open>Guri: U+AD6C U+B9AC\<close>

definition s_bucheon :: ustr where
  "s_bucheon = [48512, 52380]"  \<comment> \<open>Bucheon: U+BD80 U+CC9C\<close>

definition s_gimpo :: ustr where
  "s_gimpo = [44608, 54252]"  \<comment> \<open>Gimpo: U+AE40 U+D3EC\<close>

definition d_seoul :: ustr where
  "d_seoul = [49436, 50872, 45824, 44368, 44396]"  \<comment> \<open>archdiocese of Seoul: U+C11C U+C6B8 U+B300 U+AD50 U+AD6C\<close>

definition d_daegu :: ustr where
  "d_daegu = [45824, 44396, 45824, 44368, 44396]"  \<comment> \<open>archdiocese of Daegu: U+B300 U+AD6C U+B300 U+AD50 U+AD6C\<close>

definition d_gwangju :: ustr where
  "d_gwangju = [44305, 51452, 45824, 44368, 44396]"  \<comment> \<open>archdiocese of Gwangju: U+AD11 U+C8FC U+B300 U+AD50 U+AD6C\<close>

definition d_jeju :: ustr where
  "d_jeju = [51228, 51452, 44368, 44396]"  \<comment> \<open>diocese of Jeju: U+C81C U+C8FC U+AD50 U+AD6C\<close>

definition d_daejeon :: ustr where
  "d_daejeon = [45824, 51204, 44368, 44396]"  \<comment> \<open>diocese of Daejeon: U+B300 U+C804 U+AD50 U+AD6C\<close>

definition d_busan :: ustr where
  "d_busan = [48512, 49328, 44368, 44396]"  \<comment> \<open>diocese of Busan: U+BD80 U+C0B0 U+AD50 U+AD6C\<close>

definition d_incheon :: ustr where
  "d_incheon = [51064, 52380, 44368, 44396]"  \<comment> \<open>diocese of Incheon: U+C778 U+CC9C U+AD50 U+AD6C\<close>

definition d_jeonju :: ustr where
  "d_jeonju = [51204, 51452, 44368, 44396]"  \<comment> \<open>diocese of Jeonju: U+C804 U+C8FC U+AD50 U+AD6C\<close>

definition d_cheongju :: ustr where
  "d_cheongju = [52397, 51452, 44368, 44396]"  \<comment> \<open>diocese of Cheongju: U+CCAD U+C8FC U+AD50 U+AD6C\<close>

definition d_wonju :: ustr where
  "d_wonju = [50896, 51452, 44368, 44396]"  \<comment> \<open>diocese of Wonju: U+C6D0 U+C8FC U+AD50 U+AD6C\<close>

definition d_chuncheon :: ustr where
  "d_chuncheon = [52632, 52380, 44368, 44396]"  \<comment> \<open>diocese of Chuncheon: U+CD98 U+CC9C U+AD50 U+AD6C\<close>

definition d_suwon :: ustr where
  "d_suwon = [49688, 50896, 44368, 44396]"  \<comment> \<open>diocese of Suwon: U+C218 U+C6D0 U+AD50 U+AD6C\<close>

definition d_uijeongbu :: ustr where
  "d_uijeongbu = [51032, 51221, 48512, 44368, 44396]"  \<comment> \<open>diocese of Uijeongbu: U+C758 U+C815 U+BD80 U+AD50 U+AD6C\<close>

definition s_geomsaekgyeolgwa :: ustr where
  "s_geomsaekgyeolgwa = [44160, 49353, 44208, 44284]"  \<comment> \<open>geomsaek-gyeolgwa, search results: U+AC80 U+C0C9 U+ACB0 U+ACFC\<close>

definition s_holy_repair_crawler :: ustr where
  "s_holy_repair_crawler = [104, 111, 108, 121, 95, 114, 101, 112, 97, 105, 114, 95, 99, 114, 97, 119, 108, 101, 114]"  \<comment> \<open>the ASCII literal holy_repair_crawler: U+0068 U+006F U+006C U+0079 U+005F U+0072 U+0065 U+0070 U+0061 U+0069 U+0072 U+005F U+0063 U+0072 U+0061 U+0077 U+006C U+0065 U+0072\<close>

subsection \<open>Character classes of the runtime\<close>

text \<open>
  \<open>str.strip()\<close>, \<open>int()\<close> and the class \<open>\s\<close> of \<open>re\<close> use the Unicode white-space
  characters (\<open>str.isspace\<close>); \<open>int()\<close> and the class \<open>\d\<close> use the Unicode decimal
  digits (category Nd), which come in runs of ten consecutive code points, zero first.
  \<open>nd_zeros\<close> lists the zero of each run (Unicode 14, as shipped with CPython 3.11).
\<close>

definition is_space :: "uchar \<Rightarrow> bool" where
  "is_space c \<longleftrightarrow>
     (9 \<le> c \<and> c \<le> 13) \<or> (28 \<le> c \<and> c \<le> 32) \<or> c = 133 \<or> c = 160 \<or> c = 5760 \<or>
     (8192 \<le> c \<and> c \<le> 8202) \<or> c = 8232 \<or> c = 8233 \<or> c = 8239 \<or> c = 8287 \<or> c = 12288"

definition nd_zeros :: "nat list" where
  "nd_zeros =
     [48, 1632, 1776, 1984, 2406, 2534, 2662, 2790, 2918, 3046, 3174, 3302, 3430, 3558,
      3664, 3792, 3872, 4160, 4240, 6112, 6160, 6470, 6608, 6784, 6800, 6992, 7088, 7232,
      7248, 42528, 43216, 43264, 43472, 43504, 43600, 44016, 65296, 66720, 68912, 69734,
      69872, 69942, 70096, 70384, 70736, 70864, 71248, 71360, 71472, 71904, 72016, 72784,
      73040, 73120, 92768, 92864, 93008, 120782, 120792, 120802, 120812, 120822, 123200,
      123632, 125264, 130032]"

definition digit_value :: "uchar \<Rightarrow> nat option" where
  "digit_value c =
     (case filter (\<lambda>z. z \<le> c \<and> c < z + 10) nd_zeros of
        [] \<Rightarrow> None
      | z # _ \<Rightarrow> Some (c - z))"

definition is_digit :: "uchar \<Rightarrow> bool" where
  "is_digit c \<longleftrightarrow> digit_value c \<noteq> None"

subsection \<open>String operations\<close>

text \<open>\<open>s.startswith(p)\<close>, \<open>p in s\<close>, \<open>s.split(c)\<close> for a one-character separator,
  \<open>s.strip()\<close>, \<open>s.strip(chars)\<close> and \<open>s.replace(old, new)\<close>.\<close>

fun starts_with :: "ustr \<Rightarrow> ustr \<Rightarrow> bool" where
  "starts_with s [] = True"
| "starts_with [] (p # ps) = False"
| "starts_with (c # cs) (p # ps) = (c = p \<and> starts_with cs ps)"

fun str_in :: "ustr \<Rightarrow> ustr \<Rightarrow> bool" where
  "str_in p [] = (p = [])"
| "str_in p (c # cs) = (starts_with (c # cs) p \<or> str_in p cs)"

fun split_on :: "uchar \<Rightarrow> ustr \<Rightarrow> ustr list" where
  "split_on sep [] = [[]]"
| "split_on sep (c # cs) =
     (if c = sep then [] # split_on sep cs
      else (case split_on sep cs of
              [] \<Rightarrow> [[c]]
            | w # ws \<Rightarrow> (c # w) # ws))"

definition strip_chars :: "(uchar \<Rightarrow> bool) \<Rightarrow> ustr \<Rightarrow> ustr" where
  "strip_chars P s = rev (dropWhile P (rev (dropWhile P s)))"

definition py_strip :: "ustr \<Rightarrow> ustr" where
  "py_strip s = strip_chars is_space s"

text \<open>
  \<open>s.replace(old, new)\<close> replaces the non-overlapping occurrences of \<open>old\<close> from the
  left. \<open>skip\<close> counts the characters of an occurrence still to be passed over. With an
  empty \<open>old\<close> Python puts \<open>new\<close> before every character and at the end.
\<close>

fun replace_from :: "ustr \<Rightarrow> ustr \<Rightarrow> nat \<Rightarrow> ustr \<Rightarrow> ustr" where
  "replace_from old new skip [] = []"
| "replace_from old new skip (c # cs) =
     (if 0 < skip then replace_from old new (skip - 1) cs
      else if starts_with (c # cs) old then new @ replace_from old new (length old - 1) cs
      else c # replace_from old new 0 cs)"

definition str_replace :: "ustr \<Rightarrow> ustr \<Rightarrow> ustr \<Rightarrow> ustr" where
  "str_replace old new s =
     (if old = [] then new @ concat (map (\<lambda>c. c # new) s)
      else replace_from old new 0 s)"

subsection \<open>\<open>int()\<close> and the format \<open>:02d\<close>\<close>

text \<open>
  \<open>int(s)\<close> on a string: white space is skipped at both ends, one sign may follow, then
  decimal digits with single underscores allowed between two digits. Anything else raises
  \<open>ValueError\<close>, which is \<open>None\<close> here; so does a numeral of more than 4300 digits (the
  default limit of CPython 3.11). The white space that \<open>int\<close> skips is not all of
  \<open>str.isspace\<close>: CPython turns the white-space characters beyond ASCII into blanks and
  then skips the white space of C, so the four separators U+001C to U+001F, which
  \<open>str.isspace\<close> accepts, are not skipped and make \<open>int\<close> raise.
\<close>

definition is_int_space :: "uchar \<Rightarrow> bool" where
  "is_int_space c \<longleftrightarrow> is_space c \<and> \<not> (28 \<le> c \<and> c \<le> 31)"

fun parse_digits :: "nat \<Rightarrow> ustr \<Rightarrow> nat option" where
  "parse_digits acc [] = Some acc"
| "parse_digits acc [c] =
     (case digit_value c of None \<Rightarrow> None | Some v \<Rightarrow> Some (acc * 10 + v))"
| "parse_digits acc (c # d # ds) =
     (if c = 95 then
        (case digit_value d of None \<Rightarrow> None | Some v \<Rightarrow> parse_digits (acc * 10 + v) ds)
      else
        (case digit_value c of None \<Rightarrow> None | Some v \<Rightarrow> parse_digits (acc * 10 + v) (d # ds)))"

definition int_max_str_digits :: nat where
  "int_max_str_digits = 4300"

definition py_int :: "ustr \<Rightarrow> int option" where
  "py_int s =
     (let t = strip_chars is_int_space s;
          neg = (case t of [] \<Rightarrow> False | c # _ \<Rightarrow> c = 45);
          body = (case t of [] \<Rightarrow> [] | c # r \<Rightarrow> if c = 45 \<or> c = 43 then r else t)
      in case body of
           [] \<Rightarrow> None
         | c # r \<Rightarrow>
             (case digit_value c of
                None \<Rightarrow> None
              | Some v \<Rightarrow>
                  (case parse_digits v r of
                     None \<Rightarrow> None
                   | Some n \<Rightarrow>
                       if int_max_str_digits < length (filter (\<lambda>x. x \<noteq> 95) body) then None
                       else Some (if neg then - int n else int n))))"

fun dec :: "nat \<Rightarrow> ustr" where
  "dec n = (if n < 10 then [48 + n] else dec (n div 10) @ [48 + n mod 10])"

declare dec.simps [simp del]

definition fmt_02d :: "int \<Rightarrow> ustr" where
  "fmt_02d i =
     (if i < 0 then 45 # dec (nat (- i))
      else (let d = dec (nat i) in if length d < 2 then 48 # d else d))"

section \<open>Temporal and lexical normalizer\<close>

text \<open>
  \<open>normalize_time(time_str, ampm)\<close>. \<open>ampm\<close> is \<open>None\<close> or a string; \<open>not ampm\<close> holds
  for \<open>None\<close> and for the empty string. \<open>normalize_time_body\<close> is the \<open>try\<close> block:
  \<open>None\<close> stands for any exception raised in it (a part that \<open>int\<close> rejects, or a
  number of parts other than two in the unpacking), which the bare \<open>except\<close> turns into
  the unchanged input.
\<close>

definition normalize_time_body :: "ustr \<Rightarrow> ustr \<Rightarrow> ustr option" where
  "normalize_time_body time_str ampm =
     (case map py_int (split_on 58 time_str) of
        [Some hour, Some minute] \<Rightarrow>
          (let hour' = (if ampm = s_ohu \<and> hour < 12 then hour + 12
                        else if ampm = s_ojeon \<and> hour = 12 then 0
                        else hour)
           in Some (fmt_02d hour' @ [58] @ fmt_02d minute))
      | _ \<Rightarrow> None)"

definition normalize_time :: "ustr \<Rightarrow> ustr option \<Rightarrow> ustr" where
  "normalize_time time_str ampm =
     (case ampm of
        None \<Rightarrow> time_str
      | Some a \<Rightarrow>
          if a = [] then time_str
          else (case normalize_time_body time_str a of
                  Some r \<Rightarrow> r
                | None \<Rightarrow> time_str))"

text \<open>
  \<open>expand_days(day_expression)\<close>. \<open>index_of\<close> is \<open>list.index\<close>, with \<open>None\<close> for its
  \<open>ValueError\<close>; \<open>py_slice xs i j\<close> is \<open>xs[i:j]\<close> for non-negative bounds, empty when
  \<open>j \<le> i\<close>. \<open>expand_days_body\<close> is the \<open>try\<close> block, \<open>None\<close> again standing for an exception
  (the unpacking of a split with other than two parts, or an endpoint that is not in
  \<open>weekdays\<close>), which the bare \<open>except\<close> turns into the one-element list of the input.
\<close>

definition weekdays :: "ustr list" where
  "weekdays = [s_wol, s_hwa, s_su, s_mok, s_geum, s_to, s_il, s_juil]"

fun index_of :: "'a list \<Rightarrow> 'a \<Rightarrow> nat option" where
  "index_of [] y = None"
| "index_of (x # xs) y =
     (if x = y then Some 0 else (case index_of xs y of None \<Rightarrow> None | Some i \<Rightarrow> Some (Suc i)))"

definition py_slice :: "'a list \<Rightarrow> nat \<Rightarrow> nat \<Rightarrow> 'a list" where
  "py_slice xs i j = drop i (take j xs)"

definition expand_days_body :: "ustr \<Rightarrow> ustr list option" where
  "expand_days_body day_expression =
     (case split_on 45 day_expression of
        [start0, end0] \<Rightarrow>
          (let start = (if start0 = s_il then s_juil else start0);
               end = (if end0 = s_il then s_juil else end0)
           in case index_of weekdays start of
                None \<Rightarrow> None
              | Some s_idx \<Rightarrow>
                  (case index_of weekdays end of
                     None \<Rightarrow> None
                   | Some e_idx \<Rightarrow> Some (py_slice weekdays s_idx (e_idx + 1))))
      | _ \<Rightarrow> None)"

definition expand_days :: "ustr \<Rightarrow> ustr list" where
  "expand_days day_expression =
     (if str_in s_maeil day_expression
        then [s_wol, s_hwa, s_su, s_mok, s_geum, s_to, s_juil]
      else if 45 \<in> set day_expression
        then (case expand_days_body day_expression of
                Some days \<Rightarrow> days
              | None \<Rightarrow> [day_expression])
      else [day_expression])"

text \<open>
  The seven-symbol cycle of the specification (Monday to Saturday, then Sunday), in which
  the claims about day ranges are stated. The source has no such list: its \<open>weekdays\<close>
  has eight entries.
\<close>

definition day_cycle :: "ustr list" where
  "day_cycle = [s_wol, s_hwa, s_su, s_mok, s_geum, s_to, s_juil]"

section \<open>Schedule text parser\<close>

subsection \<open>Data\<close>

text \<open>
  The four categories are the keys \<open>juil-misa\<close> (Sunday mass), \<open>pyeongil-misa\<close> (weekday
  mass), \<open>toyo-misa\<close> (Saturday mass) and \<open>gita\<close> (other) of the source's dictionaries;
  \<open>current_section\<close> ranges over the same strings. A schedule entry is a dictionary
  with the keys \<open>sigan\<close> (time) and \<open>seolmyeong\<close> (description); while the sectioned
  parser works, an entry also has the key \<open>yoil\<close> (day), which the final pass deletes.
\<close>

datatype category = Juil_misa | Pyeongil_misa | Toyo_misa | Gita

record entry =
  sigan :: ustr
  seolmyeong :: ustr

record day_entry = entry +
  yoil :: ustr

text \<open>
  A result is a Python dictionary: a list of keys with their values in insertion order,
  no key twice. Its values are strings, entry lists and, for the failure flag, a boolean.
\<close>

datatype key = Raw_text | Cat category | Search_term | Parsing_failed

datatype jval = J_str ustr | J_entries "entry list" | J_bool bool

type_synonym result = "(key \<times> jval) list"

fun dict_set :: "('k \<times> 'v) list \<Rightarrow> 'k \<Rightarrow> 'v \<Rightarrow> ('k \<times> 'v) list" where
  "dict_set [] k v = [(k, v)]"
| "dict_set ((k', v') # d) k v = (if k' = k then (k, v) # d else (k', v') # dict_set d k v)"

fun truthy :: "jval \<Rightarrow> bool" where
  "truthy (J_str s) = (s \<noteq> [])"
| "truthy (J_entries es) = (es \<noteq> [])"
| "truthy (J_bool b) = b"

text \<open>The four working lists \<open>result[category]\<close> of either parser.\<close>

record 'e buckets =
  juil_misa :: "'e list"
  pyeongil_misa :: "'e list"
  toyo_misa :: "'e list"
  gita :: "'e list"

definition empty_buckets :: "'e buckets" where
  "empty_buckets = \<lparr>juil_misa = [], pyeongil_misa = [], toyo_misa = [], gita = []\<rparr>"

fun bucket :: "'e buckets \<Rightarrow> category \<Rightarrow> 'e list" where
  "bucket b Juil_misa = juil_misa b"
| "bucket b Pyeongil_misa = pyeongil_misa b"
| "bucket b Toyo_misa = toyo_misa b"
| "bucket b Gita = gita b"

fun bucket_update :: "category \<Rightarrow> ('e list \<Rightarrow> 'e list) \<Rightarrow> 'e buckets \<Rightarrow> 'e buckets" where
  "bucket_update Juil_misa f b = b\<lparr>juil_misa := f (juil_misa b)\<rparr>"
| "bucket_update Pyeongil_misa f b = b\<lparr>pyeongil_misa := f (pyeongil_misa b)\<rparr>"
| "bucket_update Toyo_misa f b = b\<lparr>toyo_misa := f (toyo_misa b)\<rparr>"
| "bucket_update Gita f b = b\<lparr>gita := f (gita b)\<rparr>"

definition categories :: "category list" where
  "categories = [Juil_misa, Pyeongil_misa, Toyo_misa, Gita]"

subsection \<open>The regular expressions\<close>

text \<open>
  Each pattern of the source is a function from the rest of the text at a position to the
  length of the match that starts there, if there is one. None of the patterns matches
  the empty string. \<open>match_time\<close> is \<open>\d{1,2}:\d{2}\<close>: two digits are tried first, then
  one. \<open>match_paren\<close> is \<open>\([^)]+\)\<close>: the longest run of characters other than the
  closing parenthesis, which must be non-empty and followed by one; giving characters of
  the run back cannot help, as none of them is a closing parenthesis.
\<close>

definition match_colon_mm :: "nat \<Rightarrow> ustr \<Rightarrow> nat option" where
  "match_colon_mm k r =
     (case r of
        c # d # e # _ \<Rightarrow> if c = 58 \<and> is_digit d \<and> is_digit e then Some (k + 3) else None
      | _ \<Rightarrow> None)"

definition match_time :: "ustr \<Rightarrow> nat option" where
  "match_time s =
     (let two = (case s of
                   a # b # r \<Rightarrow> if is_digit a \<and> is_digit b then match_colon_mm 2 r else None
                 | _ \<Rightarrow> None);
          one = (case s of
                   a # r \<Rightarrow> if is_digit a then match_colon_mm 1 r else None
                 | _ \<Rightarrow> None)
      in case two of Some n \<Rightarrow> Some n | None \<Rightarrow> one)"

definition match_paren :: "ustr \<Rightarrow> nat option" where
  "match_paren s =
     (case s of
        [] \<Rightarrow> None
      | c # r \<Rightarrow>
          if c = 40 then
            (let body = takeWhile (\<lambda>x. x \<noteq> 41) r
             in if body \<noteq> [] \<and> length body < length r then Some (length body + 2) else None)
          else None)"

text \<open>
  The token pattern of the sectioned parser, its five alternatives in the source's order:
  a meridiem, a day range, a single day not followed by \<open>yo\<close>, \<open>eun\<close> or \<open>neun\<close>, a
  time, a parenthesised annotation. The class of day characters is the source's
  \<open>[wol hwa su mok geum to il ju il]\<close>, so \<open>ju\<close> alone is a day character.
\<close>

datatype token = Ampm ustr | Day_range ustr | Day ustr | Time ustr | Desc ustr

definition day_class :: ustr where
  "day_class = [50900, 54868, 49688, 47785, 44552, 53664, 51068, 51452, 51068]"

definition is_day_char :: "uchar \<Rightarrow> bool" where
  "is_day_char c \<longleftrightarrow> c \<in> set day_class"

definition no_day_suffix :: "ustr \<Rightarrow> bool" where
  \<comment> \<open>the negative lookahead for \<open>yo\<close> (U+C694), \<open>eun\<close> (U+C740), \<open>neun\<close> (U+B294)\<close>
  "no_day_suffix r = (case r of [] \<Rightarrow> True | n # _ \<Rightarrow> n \<noteq> 50836 \<and> n \<noteq> 51008 \<and> n \<noteq> 45716)"

definition match_token :: "ustr \<Rightarrow> (token \<times> nat) option" where
  "match_token s =
     (if starts_with s s_ojeon then Some (Ampm s_ojeon, 2)
      else if starts_with s s_ohu then Some (Ampm s_ohu, 2)
      else
        (case s of
           [] \<Rightarrow> None
         | c # r \<Rightarrow>
             if is_day_char c \<and> (case r of d # e # _ \<Rightarrow> d = 45 \<and> is_day_char e | _ \<Rightarrow> False)
               then Some (Day_range (take 3 s), 3)
             else if is_day_char c \<and> no_day_suffix r
               then Some (Day [c], 1)
             else
               (case match_time s of
                  Some n \<Rightarrow> Some (Time (take n s), n)
                | None \<Rightarrow>
                    (case match_paren s of
                       Some n \<Rightarrow> Some (Desc (take n s), n)
                     | None \<Rightarrow> None))))"

text \<open>
  \<open>finditer\<close> and \<open>findall\<close> go through the text from the left: where the pattern
  matches, the match is taken and the scan goes on behind it; where it does not, the scan
  moves one character on. \<open>skip\<close> counts the characters of the last match still to be
  passed over.
\<close>

fun find_tokens :: "nat \<Rightarrow> ustr \<Rightarrow> token list" where
  "find_tokens skip [] = []"
| "find_tokens skip (c # cs) =
     (if 0 < skip then find_tokens (skip - 1) cs
      else (case match_token (c # cs) of
              Some (t, n) \<Rightarrow> t # find_tokens (n - 1) cs
            | None \<Rightarrow> find_tokens 0 cs))"

fun find_times :: "nat \<Rightarrow> ustr \<Rightarrow> ustr list" where
  "find_times skip [] = []"
| "find_times skip (c # cs) =
     (if 0 < skip then find_times (skip - 1) cs
      else (case match_time (c # cs) of
              Some n \<Rightarrow> take n (c # cs) # find_times (n - 1) cs
            | None \<Rightarrow> find_times 0 cs))"

text \<open>
  \<open>pattern1\<close> of the flat parser, \<open>(\d{1,2}:\d{2})\s*\(([^)]+)\)\<close>: a time, white
  space, a parenthesised annotation. The match yields the time and the text between the
  parentheses, and its length.
\<close>

definition match_time_desc :: "ustr \<Rightarrow> ((ustr \<times> ustr) \<times> nat) option" where
  "match_time_desc s =
     (case match_time s of
        None \<Rightarrow> None
      | Some n \<Rightarrow>
          (let ws = takeWhile is_space (drop n s);
               r = drop (n + length ws) s
           in case match_paren r of
                None \<Rightarrow> None
              | Some m \<Rightarrow> Some ((take n s, take (m - 2) (drop 1 r)), n + length ws + m)))"

fun find_time_descs :: "nat \<Rightarrow> ustr \<Rightarrow> (ustr \<times> ustr) list" where
  "find_time_descs skip [] = []"
| "find_time_descs skip (c # cs) =
     (if 0 < skip then find_time_descs (skip - 1) cs
      else (case match_time_desc (c # cs) of
              Some (td, n) \<Rightarrow> td # find_time_descs (n - 1) cs
            | None \<Rightarrow> find_time_descs 0 cs))"

text \<open>
  \<open>re.sub(r'(W\s*-)', r'\n\1', s)\<close> for a word \<open>W\<close>: a line break is put before every
  match of the word, white space and a dash.
\<close>

definition match_word_dash :: "ustr \<Rightarrow> ustr \<Rightarrow> nat option" where
  "match_word_dash w s =
     (if starts_with s w then
        (let ws = takeWhile is_space (drop (length w) s)
         in case drop (length w + length ws) s of
              [] \<Rightarrow> None
            | c # _ \<Rightarrow> if c = 45 then Some (length w + length ws + 1) else None)
      else None)"

fun break_before :: "ustr \<Rightarrow> nat \<Rightarrow> ustr \<Rightarrow> ustr" where
  "break_before w skip [] = []"
| "break_before w skip (c # cs) =
     (if 0 < skip then c # break_before w (skip - 1) cs
      else (case match_word_dash w (c # cs) of
              Some n \<Rightarrow> 10 # c # break_before w (n - 1) cs
            | None \<Rightarrow> c # break_before w 0 cs))"

subsection \<open>Strategy A: the sectioned format\<close>

text \<open>
  The state of \<open>_parse_daegu_style\<close> inside a line. The entries made by a time token
  are appended to the working lists and are also kept in \<open>last_added_entries\<close>: the same
  dictionary objects, so that a later annotation changes the entries in the lists. Each
  entry object sits in exactly one working list, at one position; \<open>last_added_entries\<close>
  is therefore modelled as the list of those places (category and index).
\<close>

record line_state =
  result :: "day_entry buckets"
  current_ampm :: "ustr option"
  current_days :: "ustr list"
  last_added_entries :: "(category \<times> nat) list"

definition entry_category :: "category \<Rightarrow> ustr \<Rightarrow> category" where
  "entry_category current_section d =
     (let category = (if d = s_to \<and> current_section = Juil_misa then Toyo_misa
                      else current_section)
      in if category = Pyeongil_misa \<and> d = s_juil then Juil_misa else category)"

definition add_entry :: "category \<Rightarrow> ustr \<Rightarrow> line_state \<Rightarrow> ustr \<Rightarrow> line_state" where
  "add_entry current_section final_time st d =
     (let category = entry_category current_section d;
          e = \<lparr>sigan = final_time, seolmyeong = [], yoil = d\<rparr>;
          place = (category, length (bucket (result st) category))
      in st\<lparr>result := bucket_update category (\<lambda>es. es @ [e]) (result st),
            last_added_entries := last_added_entries st @ [place]\<rparr>)"

definition attach_desc :: "ustr \<Rightarrow> day_entry \<Rightarrow> day_entry" where
  "attach_desc clean_desc e =
     (if seolmyeong e \<noteq> [] then e\<lparr>seolmyeong := seolmyeong e @ [32] @ clean_desc\<rparr>
      else e\<lparr>seolmyeong := clean_desc\<rparr>)"

definition attach_at :: "ustr \<Rightarrow> day_entry buckets \<Rightarrow> category \<times> nat \<Rightarrow> day_entry buckets" where
  "attach_at clean_desc b place =
     bucket_update (fst place) (\<lambda>es. es[snd place := attach_desc clean_desc (es ! snd place)]) b"

fun apply_token :: "category \<Rightarrow> line_state \<Rightarrow> token \<Rightarrow> line_state" where
  "apply_token current_section st (Ampm ampm) = st\<lparr>current_ampm := Some ampm\<rparr>"
| "apply_token current_section st (Day_range day_range) =
     st\<lparr>current_days := expand_days day_range\<rparr>"
| "apply_token current_section st (Day day) = st\<lparr>current_days := [day]\<rparr>"
| "apply_token current_section st (Time time_str) =
     (let final_time = normalize_time time_str (current_ampm st);
          days_to_apply =
            (if current_days st = [] then
               (if current_section = Juil_misa then [s_juil] else [])
             else current_days st)
      in foldl (add_entry current_section final_time)
           (st\<lparr>last_added_entries := []\<rparr>) days_to_apply)"
| "apply_token current_section st (Desc desc) =
     (let clean_desc = strip_chars (\<lambda>c. c = 40 \<or> c = 41) desc
      in st\<lparr>result := foldl (attach_at clean_desc) (result st) (last_added_entries st)\<rparr>)"

definition parse_line :: "category \<Rightarrow> day_entry buckets \<Rightarrow> ustr \<Rightarrow> day_entry buckets" where
  "parse_line current_section res line =
     (let clean_line = str_replace s_iryoil s_juil (str_replace s_toyoil s_to line);
          st0 = \<lparr>result = res, current_ampm = None, current_days = [],
                 last_added_entries = []\<rparr>
      in result (foldl (apply_token current_section) st0 (find_tokens 0 clean_line)))"

text \<open>The loop over the lines, with \<open>current_section\<close> and the working lists as state.\<close>

fun parse_lines :: "category \<Rightarrow> day_entry buckets \<Rightarrow> ustr list \<Rightarrow> day_entry buckets" where
  "parse_lines current_section res [] = res"
| "parse_lines current_section res (raw_line # rest) =
     (let line = py_strip raw_line
      in if line = [] then parse_lines current_section res rest
         else if str_in s_marker_juil line then parse_lines Juil_misa res rest
         else if str_in s_marker_pyeongil line then parse_lines Pyeongil_misa res rest
         else parse_lines current_section (parse_line current_section res line) rest)"

definition normalize_sections :: "ustr \<Rightarrow> ustr" where
  "normalize_sections text =
     break_before s_juil 0
       (break_before s_toyoil 0
          (str_replace s_marker_pyeongil ([10] @ s_marker_pyeongil @ [10])
             (str_replace s_marker_juil ([10] @ s_marker_juil @ [10]) text)))"

text \<open>
  The final pass over one working list: entries whose description contains a filter
  keyword are dropped; in the weekday list the day is put before a description that does
  not contain it; an entry whose key (time, a bar, description) was seen before is
  dropped; the day is deleted from the entries that stay.
\<close>

definition filter_keywords :: "ustr list" where
  "filter_keywords = [s_huwonhoe, s_gyori, s_gyojeongsamok]"

definition entry_key :: "ustr \<Rightarrow> ustr \<Rightarrow> ustr" where
  "entry_key t d = t @ [124] @ d"

definition with_day :: "category \<Rightarrow> day_entry \<Rightarrow> day_entry" where
  "with_day cat e =
     (if cat = Pyeongil_misa \<and> \<not> str_in (yoil e) (seolmyeong e)
        then e\<lparr>seolmyeong := py_strip (yoil e @ [32] @ seolmyeong e)\<rparr>
      else e)"

fun clean_entries :: "category \<Rightarrow> ustr list \<Rightarrow> day_entry list \<Rightarrow> entry list" where
  "clean_entries cat seen [] = []"
| "clean_entries cat seen (e0 # es) =
     (if \<exists>kw \<in> set filter_keywords. str_in kw (seolmyeong e0) then clean_entries cat seen es
      else
        (let e = with_day cat e0;
             k = entry_key (sigan e) (seolmyeong e)
         in if k \<notin> set seen
              then \<lparr>sigan = sigan e, seolmyeong = seolmyeong e\<rparr> # clean_entries cat (k # seen) es
            else clean_entries cat seen es))"

definition present :: "category \<Rightarrow> entry list \<Rightarrow> result" where
  "present cat es = (if es \<noteq> [] then [(Cat cat, J_entries es)] else [])"

definition parse_daegu_style :: "ustr \<Rightarrow> result" where
  "parse_daegu_style text =
     (let res = parse_lines Gita empty_buckets (split_on 10 (normalize_sections text))
      in (Raw_text, J_str (take 500 text))
           # concat (map (\<lambda>cat. present cat (clean_entries cat [] (bucket res cat))) categories))"

subsection \<open>Strategy B: the flat format\<close>

text \<open>
  \<open>_classify_mass\<close> searches the lower-cased keyword source for Hangul keywords.
  \<open>str.lower\<close> is modelled on the ASCII letters only: it maps no character to or from a
  Hangul syllable, which has no case, so the keyword tests do not depend on the rest.
\<close>

definition py_lower :: "ustr \<Rightarrow> ustr" where
  "py_lower s = map (\<lambda>c. if 65 \<le> c \<and> c \<le> 90 then c + 32 else c) s"

definition classify_mass :: "ustr \<Rightarrow> category" where
  "classify_mass keyword_source =
     (let k = py_lower keyword_source
      in if \<exists>w \<in> set [s_juil, s_iryoil, s_gyojung, s_cheongnyeon, s_cheongsonyeon]. str_in w k
           then Juil_misa
         else if \<exists>w \<in> set [s_toyo, s_to, s_teukjeon]. str_in w k
           then Toyo_misa
         else if \<exists>w \<in> set [s_pyeongil, s_wol, s_hwa, s_su, s_mok, s_geum]. str_in w k
           then Pyeongil_misa
         else Gita)"

definition append_classified :: "entry buckets \<Rightarrow> entry \<times> ustr \<Rightarrow> entry buckets" where
  "append_classified res ek =
     bucket_update (classify_mass (snd ek)) (\<lambda>es. es @ [fst ek]) res"

text \<open>Pattern 1: every time with an annotation, classified by the annotation.\<close>

definition pattern1_entries :: "ustr \<Rightarrow> (entry \<times> ustr) list" where
  "pattern1_entries text =
     map (\<lambda>(time_str, desc). (\<lparr>sigan = time_str, seolmyeong = desc\<rparr>, desc))
       (find_time_descs 0 text)"

text \<open>
  Pattern 2: the times of every line that starts with a day name, classified by the first
  day name of \<open>days\<close> the line starts with.
\<close>

definition days :: "ustr list" where
  "days = [s_wol, s_hwa, s_su, s_mok, s_geum, s_to, s_juil, s_il]"

definition day_found :: "ustr \<Rightarrow> ustr" where
  "day_found line = (case filter (starts_with line) days of [] \<Rightarrow> [] | d # _ \<Rightarrow> d)"

definition line_entries :: "ustr \<Rightarrow> (entry \<times> ustr) list" where
  "line_entries raw_line =
     (let line = py_strip raw_line
      in if line = [] then []
         else if (\<exists>d \<in> set days. starts_with line d)
                 \<or> (\<exists>d \<in> set days. starts_with line (d @ s_yoil))
           then map (\<lambda>t. (\<lparr>sigan = t,
                              seolmyeong = day_found line @ s_yoil @ [32] @ t @ s_misa_suffix\<rparr>,
                            day_found line))
                  (find_times 0 line)
         else [])"

definition pattern2_entries :: "ustr \<Rightarrow> (entry \<times> ustr) list" where
  "pattern2_entries text = concat (map line_entries (split_on 10 text))"

fun unique :: "ustr list \<Rightarrow> entry list \<Rightarrow> entry list" where
  "unique seen [] = []"
| "unique seen (item # items) =
     (let k = entry_key (sigan item) (seolmyeong item)
      in if k \<notin> set seen then item # unique (k # seen) items else unique seen items)"

text \<open>The working lists of the flat parser after both patterns and the deduplication.\<close>

definition flat_buckets :: "ustr \<Rightarrow> entry buckets" where
  "flat_buckets text =
     (let res = foldl append_classified empty_buckets (pattern1_entries text @ pattern2_entries text)
      in \<lparr>juil_misa = unique [] (juil_misa res), pyeongil_misa = unique [] (pyeongil_misa res),
          toyo_misa = unique [] (toyo_misa res), gita = unique [] (gita res)\<rparr>)"

definition parse_flat :: "ustr \<Rightarrow> result option" where
  "parse_flat text =
     (let res = flat_buckets text;
          d = filter (\<lambda>(k, v). truthy v)
                (map (\<lambda>cat. (Cat cat, J_entries (bucket res cat))) categories
                 @ [(Raw_text, J_str (take 500 text))])
      in if 1 < length d then Some d else None)"

definition parse_mass_times_from_text :: "ustr \<Rightarrow> result option" where
  "parse_mass_times_from_text text =
     (if str_in s_marker_juil text \<or> str_in s_marker_pyeongil text
        then Some (parse_daegu_style text)
      else parse_flat text)"

text \<open>
  The number of categories that are non-empty after classification and deduplication in
  the flat parser: the quantity in which the specification states when the flat parser
  gives up.
\<close>

definition nonempty_categories :: "ustr \<Rightarrow> nat" where
  "nonempty_categories text =
     length (filter (\<lambda>cat. bucket (flat_buckets text) cat \<noteq> []) categories)"

definition has_section_marker :: "ustr \<Rightarrow> bool" where
  "has_section_marker text \<longleftrightarrow> str_in s_marker_juil text \<or> str_in s_marker_pyeongil text"

text \<open>\<open>result.get(category, [])\<close>: the entries of a category in a result.\<close>

definition entries_of :: "result \<Rightarrow> category \<Rightarrow> entry list" where
  "entries_of r cat = (case map_of r (Cat cat) of Some (J_entries es) \<Rightarrow> es | _ \<Rightarrow> [])"

abbreviation (input) key_of :: "entry \<Rightarrow> ustr" where
  "key_of e \<equiv> entry_key (sigan e) (seolmyeong e)"

subsection \<open>Sample texts\<close>

text \<open>
  Scenario 1 of the specification: the Sunday marker, AM 10:00, the weekday marker,
  PM 7:00, separated by single spaces; and the same text with the day \<open>wol\<close> (Monday)
  before the PM marker.
\<close>

definition scenario1 :: ustr where
  "scenario1 =
     [91, 51452, 51068, 48120, 49324, 93, 32, 50724, 51204, 32, 49, 48, 58, 48, 48, 32,
     91, 54217, 51068, 48120, 49324, 93, 32, 50724, 54980, 32, 55, 58, 48, 48]"

definition scenario1_monday :: ustr where
  "scenario1_monday =
     [91, 51452, 51068, 48120, 49324, 93, 32, 50724, 51204, 32, 49, 48, 58, 48, 48, 32,
     91, 54217, 51068, 48120, 49324, 93, 32, 50900, 32, 50724, 54980, 32, 55, 58, 48, 48]"

text \<open>
  A bare time; a time with the annotation \<open>gyojung\<close>; that text twice; a Sunday section
  with the same time twice; the Sunday marker alone.
\<close>

definition text_bare_time :: ustr where
  "text_bare_time = [49, 48, 58, 48, 48]"

definition text_gyojung :: ustr where
  "text_gyojung = [49, 48, 58, 48, 48, 32, 40, 44368, 51473, 41]"

definition text_gyojung_twice :: ustr where
  "text_gyojung_twice =
     [49, 48, 58, 48, 48, 32, 40, 44368, 51473, 41, 32, 49, 48, 58, 48, 48, 32, 40,
     44368, 51473, 41]"

definition text_sunday_twice :: ustr where
  "text_sunday_twice =
     [91, 51452, 51068, 48120, 49324, 93, 32, 49, 48, 58, 48, 48, 32, 49, 48, 58, 48, 48]"

section \<open>Diocese dispatcher\<close>

text \<open>
  \<open>infer_diocese(address)\<close>: the first test of the chain that finds its substring in
  the address decides.
\<close>

definition infer_diocese :: "ustr \<Rightarrow> ustr" where
  "infer_diocese address =
     (if address = [] then []
      else if str_in s_seoul address then d_seoul
      else if str_in s_daegu address then d_daegu
      else if str_in s_gwangju address then d_gwangju
      else if str_in s_jeju address then d_jeju
      else if str_in s_daejeon address \<or> str_in s_sejong address \<or> str_in s_chungnam address
              \<or> str_in s_chungcheongnamdo address then d_daejeon
      else if str_in s_busan address then d_busan
      else if str_in s_incheon address then d_incheon
      else if str_in s_jeonbuk address \<or> str_in s_jeollabukdo address then d_jeonju
      else if str_in s_chungbuk address \<or> str_in s_chungcheongbukdo address then d_cheongju
      else if str_in s_gangwon address \<or> str_in s_gangwondo address then
        (if str_in s_wonju address then d_wonju else d_chuncheon)
      else if str_in s_gyeonggi address then
        (if \<exists>c \<in> set [s_suwon, s_seongnam, s_yongin, s_anyang, s_ansan, s_hwaseong,
                         s_pyeongtaek]. str_in c address then d_suwon
         else if \<exists>c \<in> set [s_goyang, s_uijeongbu, s_paju, s_namyangju, s_guri].
                   str_in c address then d_uijeongbu
         else if \<exists>c \<in> set [s_bucheon, s_gimpo]. str_in c address then d_incheon
         else d_suwon)
      else [])"

text \<open>
  The rows of the chain that map a province or city name straight to a diocese, in the
  chain's order: the table of the specification, read off \<open>infer_diocese\<close>. The two
  provinces that are split between dioceses (Gangwon, Gyeonggi) come after these rows.
\<close>

definition diocese_rows :: "(ustr list \<times> ustr) list" where
  "diocese_rows =
     [([s_seoul], d_seoul), ([s_daegu], d_daegu), ([s_gwangju], d_gwangju),
      ([s_jeju], d_jeju),
      ([s_daejeon, s_sejong, s_chungnam, s_chungcheongnamdo], d_daejeon),
      ([s_busan], d_busan), ([s_incheon], d_incheon),
      ([s_jeonbuk, s_jeollabukdo], d_jeonju),
      ([s_chungbuk, s_chungcheongbukdo], d_cheongju)]"

definition row_matches :: "ustr \<Rightarrow> ustr list \<times> ustr \<Rightarrow> bool" where
  "row_matches address row \<longleftrightarrow> (\<exists>k \<in> set (fst row). str_in k address)"



datatype handler = Handle_seoul | Handle_daegu | Handle_suwon | Handle_incheon | Handle_busan

definition get_handler :: "ustr \<Rightarrow> handler option" where
  "get_handler diocese =
     (let normalized = py_strip (str_replace [32] [] (str_replace s_cheonjugyo [] diocese))
      in if str_in s_seoul normalized then Some Handle_seoul
         else if str_in s_daegu normalized then Some Handle_daegu
         else if str_in s_suwon normalized then Some Handle_suwon
         else if str_in s_incheon normalized then Some Handle_incheon
         else if str_in s_busan normalized then Some Handle_busan
         else None)"

section \<open>The Seoul handler\<close>

text \<open>
  What the browser session of \<open>handle_seoul\<close> can come to: an exception somewhere in
  the \<open>try\<close> block (page load, waiting, typing), no search input under either selector,
  or the text of the result page. The handler's own logic is a function of that.
\<close>

datatype page_visit = Visit_failed | No_search_input | Body_text ustr

definition parsing_failed_marker :: "ustr \<Rightarrow> ustr \<Rightarrow> result" where
  "parsing_failed_marker text_content church_name =
     [(Raw_text, J_str (take 1000 text_content)), (Search_term, J_str church_name),
      (Parsing_failed, J_bool True)]"

definition handle_seoul :: "page_visit \<Rightarrow> ustr \<Rightarrow> result option" where
  "handle_seoul visit church_name =
     (case visit of
        Visit_failed \<Rightarrow> None
      | No_search_input \<Rightarrow> None
      | Body_text text_content \<Rightarrow>
          if \<not> str_in church_name text_content \<and> \<not> str_in s_geomsaekgyeolgwa text_content
            then None
          else
            (case parse_mass_times_from_text text_content of
               None \<Rightarrow> Some (parsing_failed_marker text_content church_name)
             | Some r \<Rightarrow>
                 if r \<noteq> [] then Some (dict_set r Search_term (J_str church_name))
                 else Some (parsing_failed_marker text_content church_name)))"

section \<open>Repair orchestrator\<close>

text \<open>
  A record of an input batch. A key that the JSON object lacks is \<open>None\<close>; the three
  last fields are the bookkeeping that a successful repair writes.
\<close>

record post =
  church_name :: "ustr option"
  diocese :: "ustr option"
  address :: "ustr option"
  repaired_mass_times :: "result option"
  repair_source :: "ustr option"
  repair_timestamp :: "ustr option"

record stats =
  total :: int
  success :: int
  failed :: int

text \<open>
  The state of \<open>process_single_file\<close> in its loop: the two lists of the file and the
  counters of the crawler.
\<close>

record run_state =
  repaired_posts :: "post list"
  failed_posts :: "post list"
  run_stats :: stats

text \<open>
  The browser part of the \<open>try\<close> block (open a page, call the handler, close the page)
  either raises or returns the handler's result, which is \<open>None\<close> or a dictionary. It is
  a parameter of the model, as is the clock that stamps a repaired record.
\<close>

datatype outcome = Raised | Returned "result option"

type_synonym browser = "handler \<Rightarrow> ustr \<Rightarrow> post \<Rightarrow> outcome"

definition get_or_empty :: "ustr option \<Rightarrow> ustr" where
  \<comment> \<open>\<open>post.get(key, '')\<close>\<close>
  "get_or_empty v = (case v of None \<Rightarrow> [] | Some s \<Rightarrow> s)"

definition post_church_name :: "post \<Rightarrow> ustr" where
  "post_church_name p = py_strip (str_replace s_seongdang [] (get_or_empty (church_name p)))"

definition post_diocese :: "post \<Rightarrow> ustr" where
  "post_diocese p =
     (let d = get_or_empty (diocese p)
      in if d = [] then infer_diocese (get_or_empty (address p)) else d)"

definition count_total :: "run_state \<Rightarrow> run_state" where
  "count_total st = st\<lparr>run_stats := (run_stats st)\<lparr>total := total (run_stats st) + 1\<rparr>\<rparr>"

definition record_success :: "ustr \<Rightarrow> result \<Rightarrow> post \<Rightarrow> run_state \<Rightarrow> run_state" where
  "record_success now result_data p st =
     st\<lparr>repaired_posts := repaired_posts st @
            [p\<lparr>repaired_mass_times := Some result_data,
               repair_source := Some s_holy_repair_crawler,
               repair_timestamp := Some now\<rparr>],
        run_stats := (run_stats st)\<lparr>success := success (run_stats st) + 1\<rparr>\<rparr>"

definition record_failure :: "post \<Rightarrow> run_state \<Rightarrow> run_state" where
  "record_failure p st =
     st\<lparr>failed_posts := failed_posts st @ [p],
        run_stats := (run_stats st)\<lparr>failed := failed (run_stats st) + 1\<rparr>\<rparr>"

definition process_post :: "browser \<Rightarrow> (nat \<Rightarrow> ustr) \<Rightarrow> run_state \<Rightarrow> nat \<times> post \<Rightarrow> run_state" where
  "process_post browser clock st ip =
     (let p = snd ip;
          name = post_church_name p;
          dio = post_diocese p
      in if name = [] \<or> dio = [] then st
         else
           (case get_handler dio of
              None \<Rightarrow> st\<lparr>failed_posts := failed_posts st @ [p]\<rparr>
            | Some h \<Rightarrow>
                (case browser h name p of
                   Raised \<Rightarrow> record_failure p (count_total st)
                 | Returned None \<Rightarrow> record_failure p (count_total st)
                 | Returned (Some result_data) \<Rightarrow>
                     if result_data \<noteq> [] \<and> 1 < length result_data
                       then record_success (clock (fst ip)) result_data p (count_total st)
                     else record_failure p (count_total st))))"

definition posts_to_process :: "int option \<Rightarrow> post list \<Rightarrow> post list" where
  \<comment> \<open>\<open>posts[:limit] if limit else posts\<close>; a negative limit cuts from the end\<close>
  "posts_to_process limit posts =
     (case limit of
        None \<Rightarrow> posts
      | Some l \<Rightarrow>
          if l = 0 then posts
          else if 0 < l then take (nat l) posts
          else take (length posts - nat (- l)) posts)"

definition process_posts :: "browser \<Rightarrow> (nat \<Rightarrow> ustr) \<Rightarrow> stats \<Rightarrow> post list \<Rightarrow> run_state" where
  "process_posts browser clock st0 posts =
     foldl (process_post browser clock)
       \<lparr>repaired_posts = [], failed_posts = [], run_stats = st0\<rparr>
       (enumerate 0 posts)"

text \<open>
  \<open>process_single_file\<close>: a file that does not load changes nothing and writes nothing;
  otherwise the posts are processed and the repaired ones are written, if there are any.
  The result is the content of the written file, if one is written, and the state after
  the loop.
\<close>

definition initial_stats :: stats where
  "initial_stats = \<lparr>total = 0, success = 0, failed = 0\<rparr>"

definition process_single_file ::
  "browser \<Rightarrow> (nat \<Rightarrow> ustr) \<Rightarrow> int option \<Rightarrow> stats \<Rightarrow> post list option
     \<Rightarrow> post list option \<times> run_state" where
  "process_single_file browser clock limit st0 loaded =
     (case loaded of
        None \<Rightarrow> (None, \<lparr>repaired_posts = [], failed_posts = [], run_stats = st0\<rparr>)
      | Some posts \<Rightarrow>
          (let st = process_posts browser clock st0 (posts_to_process limit posts)
           in (if repaired_posts st \<noteq> [] then Some (repaired_posts st) else None, st)))"

text \<open>
  The relation between the counters, and the order on the counters, that the claims about
  the statistics are stated in.
\<close>

definition stats_consistent :: "stats \<Rightarrow> bool" where
  "stats_consistent s \<longleftrightarrow> total s = success s + failed s"

definition stats_le :: "stats \<Rightarrow> stats \<Rightarrow> bool" where
  "stats_le s s' \<longleftrightarrow>
     total s \<le> total s' \<and> success s \<le> success s' \<and> failed s \<le> failed s'"

text \<open>
  A browser session in which the Seoul site answers every search with the same visit;
  the other handlers, which are not modelled, raise.
\<close>

definition seoul_browser :: "page_visit \<Rightarrow> browser" where
  "seoul_browser visit h name p =
     (case h of
        Handle_seoul \<Rightarrow> Returned (handle_seoul visit name)
      | _ \<Rightarrow> Raised)"

subsection \<open>Sample records\<close>

text \<open>
  The church name \<open>Myeongdong\<close> with the parish suffix, and a result page of the Seoul
  site that shows the name and no mass times.
\<close>

definition s_myeongdong :: ustr where
  "s_myeongdong = [47749, 46041]"

definition blank_post :: post where
  "blank_post = \<lparr>church_name = None, diocese = None, address = None,
     repaired_mass_times = None, repair_source = None, repair_timestamp = None\<rparr>"

text \<open>
  A record of the archdiocese of Seoul; a record whose name is the parish suffix alone;
  a record without diocese whose address (Gyeonggi, Uijeongbu) infers a diocese that has
  no handler; a record of the diocese of Busan; a record without diocese whose address
  matches nothing.
\<close>

definition post_seoul :: post where
  "post_seoul = blank_post\<lparr>church_name := Some (s_myeongdong @ s_seongdang),
     diocese := Some d_seoul\<rparr>"

definition post_nameless :: post where
  "post_nameless = blank_post\<lparr>church_name := Some s_seongdang, diocese := Some d_seoul\<rparr>"

definition post_uijeongbu :: post where
  "post_uijeongbu = blank_post\<lparr>church_name := Some (s_uijeongbu @ s_seongdang),
     address := Some (s_gyeonggi @ [32] @ s_uijeongbu)\<rparr>"

definition post_busan :: post where
  "post_busan = blank_post\<lparr>church_name := Some (s_busan @ s_seongdang),
     diocese := Some d_busan\<rparr>"

definition post_nowhere :: post where
  "post_nowhere = blank_post\<lparr>church_name := Some (s_myeongdong @ s_seongdang),
     address := Some s_myeongdong\<rparr>"

definition sample_batch :: "post list" where
  "sample_batch = [post_seoul, post_nameless, post_uijeongbu, post_busan, post_nowhere]"

definition sample_clock :: "nat \<Rightarrow> ustr" where
  "sample_clock i = [50, 48, 50, 52]"

text \<open>
  Addresses: one in Busan, one in Wonju (Gangwon-do), one in Gangneung (Gangwon), one in
  Uijeongbu (Gyeonggi).
\<close>

definition address_busan :: ustr where
  "address_busan = s_busan @ [32] @ s_myeongdong"

definition address_wonju :: ustr where
  "address_wonju = s_gangwondo @ [32] @ s_wonju"

definition address_gangneung :: ustr where
  "address_gangneung = s_gangwon @ [32] @ [44053, 47497]"

definition address_uijeongbu :: ustr where
  "address_uijeongbu = s_gyeonggi @ [32] @ s_uijeongbu"

text \<open>
  Two addresses in which a name of an earlier test of the chain occurs: a street
  \<open>Seoul-ro\<close> in Wonju (Gangwon-do), and the city of Gwangju in Gyeonggi-do, which
  shares its name with the metropolitan city. And a record without diocese whose address
  is in Seoul.
\<close>

definition address_wonju_seoulro :: ustr where
  "address_wonju_seoulro = s_gangwondo @ [32] @ s_wonju @ [49884, 32, 49436, 50872, 47196]"

definition address_gyeonggi_gwangju :: ustr where
  "address_gyeonggi_gwangju = s_gyeonggi @ [46020, 32, 44305, 51452, 49884]"

definition post_seoul_by_address :: post where
  "post_seoul_by_address = blank_post\<lparr>church_name := Some (s_myeongdong @ s_seongdang),
     address := Some (s_seoul @ [32] @ s_myeongdong)\<rparr>"

section \<open>Evaluation rules\<close>

text \<open>The defining equations that evaluate the model on concrete input.\<close>

lemmas str_defs =
  s_ojeon_def s_ohu_def s_wol_def s_hwa_def s_su_def s_mok_def
  s_geum_def s_to_def s_il_def s_juil_def s_maeil_def s_yoil_def
  s_toyoil_def s_iryoil_def s_marker_juil_def s_marker_pyeongil_def s_huwonhoe_def s_gyori_def
  s_gyojeongsamok_def s_gyojung_def s_cheongnyeon_def s_cheongsonyeon_def s_toyo_def s_teukjeon_def
  s_pyeongil_def s_misa_suffix_def s_seongdang_def s_cheonjugyo_def s_seoul_def s_daegu_def
  s_gwangju_def s_jeju_def s_daejeon_def s_sejong_def s_chungnam_def s_chungcheongnamdo_def
  s_busan_def s_incheon_def s_jeonbuk_def s_jeollabukdo_def s_chungbuk_def s_chungcheongbukdo_def
  s_gangwon_def s_gangwondo_def s_wonju_def s_gyeonggi_def s_suwon_def s_seongnam_def
  s_yongin_def s_anyang_def s_ansan_def s_hwaseong_def s_pyeongtaek_def s_goyang_def
  s_uijeongbu_def s_paju_def s_namyangju_def s_guri_def s_bucheon_def s_gimpo_def
  d_seoul_def d_daegu_def d_gwangju_def d_jeju_def d_daejeon_def d_busan_def
  d_incheon_def d_jeonju_def d_cheongju_def d_wonju_def d_chuncheon_def d_suwon_def
  d_uijeongbu_def s_geomsaekgyeolgwa_def s_holy_repair_crawler_def

lemmas int_defs = py_int_def py_strip_def strip_chars_def is_space_def is_int_space_def
  digit_value_def
  nd_zeros_def int_max_str_digits_def

lemmas time_defs = normalize_time_def normalize_time_body_def fmt_02d_def dec.simps

lemmas days_defs = expand_days_def expand_days_body_def weekdays_def py_slice_def

lemmas regex_defs = match_colon_mm_def match_time_def match_paren_def day_class_def
  is_day_char_def no_day_suffix_def match_token_def match_time_desc_def match_word_dash_def
  is_digit_def

lemmas parser_a_defs = entry_category_def add_entry_def attach_desc_def attach_at_def
  parse_line_def normalize_sections_def filter_keywords_def entry_key_def with_day_def
  present_def parse_daegu_style_def categories_def empty_buckets_def str_replace_def

lemmas parser_b_defs = py_lower_def classify_mass_def append_classified_def
  pattern1_entries_def days_def day_found_def line_entries_def pattern2_entries_def
  flat_buckets_def parse_flat_def nonempty_categories_def

lemmas sample_defs = scenario1_def scenario1_monday_def text_bare_time_def text_gyojung_def
  text_gyojung_twice_def text_sunday_twice_def

lemmas eval_defs = regex_defs parser_a_defs parser_b_defs parse_mass_times_from_text_def
  has_section_marker_def entries_of_def sample_defs
  int_defs time_defs days_defs str_defs Let_def

lemmas orch_defs = process_post_def count_total_def record_success_def record_failure_def
  process_posts_def process_single_file_def posts_to_process_def post_church_name_def
  post_diocese_def get_or_empty_def get_handler_def infer_diocese_def handle_seoul_def
  parsing_failed_marker_def seoul_browser_def initial_stats_def stats_consistent_def
  stats_le_def row_matches_def diocese_rows_def

lemmas post_defs = s_myeongdong_def blank_post_def post_seoul_def post_nameless_def
  post_uijeongbu_def post_busan_def post_nowhere_def sample_batch_def sample_clock_def
  address_busan_def address_wonju_def address_gangneung_def address_uijeongbu_def
  address_wonju_seoulro_def address_gyeonggi_gwangju_def post_seoul_by_address_def

section \<open>The normalizer\<close>

subsection \<open>Splitting and indexing\<close>

lemma split_on_no_sep: "sep \<notin> set s \<Longrightarrow> split_on sep s = [s]"
  by (induction s) auto

lemma split_on_one_sep:
  "sep \<notin> set a \<Longrightarrow> sep \<notin> set b \<Longrightarrow> split_on sep (a @ sep # b) = [a, b]"
  by (induction a) (auto simp: split_on_no_sep)

lemma index_of_None: "index_of xs y = None \<longleftrightarrow> y \<notin> set xs"
  by (induction xs) (auto split: option.splits)

lemma less_6_cases: "(i::nat) < 6 \<Longrightarrow> i = 0 \<or> i = 1 \<or> i = 2 \<or> i = 3 \<or> i = 4 \<or> i = 5"
  by arith

lemma less_7_cases:
  "(i::nat) < 7 \<Longrightarrow> i = 0 \<or> i = 1 \<or> i = 2 \<or> i = 3 \<or> i = 4 \<or> i = 5 \<or> i = 6"
  by arith

subsection \<open>Clock times\<close>

lemma fmt_02d_two_digits:
  assumes "0 \<le> i" "i < 100"
  shows "fmt_02d i = [48 + nat i div 10, 48 + nat i mod 10]"
proof -
  obtain n where n: "n = nat i" "n < 100" using assms by simp
  have "n div 10 < 10" using n(2) by simp
  then have "dec (n div 10) = [48 + n div 10]"
    by (subst dec.simps) simp
  then have "dec n = (if n < 10 then [48 + n] else [48 + n div 10, 48 + n mod 10])"
    by (subst dec.simps) simp
  with assms n(1) show ?thesis
    by (simp add: fmt_02d_def Let_def)
qed

lemma normalize_time_body_parts:
  assumes "py_int hs = Some h" "py_int ms = Some m" "58 \<notin> set hs" "58 \<notin> set ms"
  shows "normalize_time_body (hs @ 58 # ms) a =
     Some (fmt_02d (if a = s_ohu \<and> h < 12 then h + 12 else if a = s_ojeon \<and> h = 12 then 0 else h)
           @ 58 # fmt_02d m)"
  using assms by (simp add: normalize_time_body_def split_on_one_sep Let_def)

lemma normalize_time_body_malformed:
  assumes "length (split_on 58 t) \<noteq> 2 \<or> (\<exists>p \<in> set (split_on 58 t). py_int p = None)"
  shows "normalize_time_body t a = None"
proof (cases "split_on 58 t")
  case Nil
  then show ?thesis by (simp add: normalize_time_body_def)
next
  case (Cons p r)
  note outer = Cons
  show ?thesis
  proof (cases r)
    case Nil
    with outer show ?thesis by (simp add: normalize_time_body_def split: option.splits)
  next
    case (Cons q r')
    show ?thesis
    proof (cases r')
      case Nil
      with outer Cons assms have "py_int p = None \<or> py_int q = None" by auto
      with outer Cons Nil show ?thesis
        by (auto simp: normalize_time_body_def split: option.splits)
    next
      case (Cons u r'')
      with outer \<open>r = q # r'\<close> show ?thesis
        by (simp add: normalize_time_body_def split: option.splits list.splits)
    qed
  qed
qed

lemma digit_value_ascii: "d < 10 \<Longrightarrow> digit_value (48 + d) = Some d"
  by (simp add: digit_value_def nd_zeros_def)

lemma not_space_ascii_digit: "d < 10 \<Longrightarrow> \<not> is_int_space (48 + d)"
  by (simp add: is_int_space_def is_space_def)

lemma py_int_one_digit: "d < 10 \<Longrightarrow> py_int [48 + d] = Some (int d)"
  by (simp add: py_int_def strip_chars_def not_space_ascii_digit
      digit_value_ascii int_max_str_digits_def)

lemma py_int_two_digits:
  "a < 10 \<Longrightarrow> b < 10 \<Longrightarrow> py_int [48 + a, 48 + b] = Some (int (10 * a + b))"
  by (simp add: py_int_def strip_chars_def not_space_ascii_digit
      digit_value_ascii int_max_str_digits_def)

lemma dec_small: "n < 100 \<Longrightarrow> dec n = (if n < 10 then [48 + n] else [48 + n div 10, 48 + n mod 10])"
proof -
  assume "n < 100"
  then have "n div 10 < 10" by simp
  then have "dec (n div 10) = [48 + n div 10]"
    by (subst dec.simps) simp
  then show ?thesis
    by (subst dec.simps) simp
qed

lemma py_int_dec: "n < 100 \<Longrightarrow> py_int (dec n) = Some (int n)"
proof -
  assume n: "n < 100"
  show ?thesis
  proof (cases "n < 10")
    case True
    with n show ?thesis by (simp add: dec_small py_int_one_digit)
  next
    case False
    with n have "n div 10 < 10" "n mod 10 < 10" by simp_all
    then have "py_int [48 + n div 10, 48 + n mod 10] = Some (int (10 * (n div 10) + n mod 10))"
      by (rule py_int_two_digits)
    with n False show ?thesis by (simp add: dec_small)
  qed
qed

lemma py_int_pad: "n < 100 \<Longrightarrow> py_int [48 + n div 10, 48 + n mod 10] = Some (int n)"
proof -
  assume n: "n < 100"
  then have "n div 10 < 10" "n mod 10 < 10" by simp_all
  then have "py_int [48 + n div 10, 48 + n mod 10] = Some (int (10 * (n div 10) + n mod 10))"
    by (rule py_int_two_digits)
  then show ?thesis by simp
qed

lemma no_colon_dec: "n < 100 \<Longrightarrow> 58 \<notin> set (dec n)"
  by (auto simp: dec_small)

lemma no_colon_pad: "(n::nat) < 100 \<Longrightarrow> 58 \<notin> set [48 + n div 10, 48 + n mod 10]"
proof -
  assume "n < 100"
  then have "n div 10 < 10" "n mod 10 < 10" by simp_all
  then show ?thesis by auto
qed


lemma fmt_02d_nat: "n < 100 \<Longrightarrow> fmt_02d (int n) = [48 + n div 10, 48 + n mod 10]"
  using fmt_02d_two_digits [of "int n"] by simp

lemma normalize_time_token:
  assumes "hh < 100" "mm < 100"
  shows "normalize_time (dec hh @ 58 # fmt_02d (int mm)) (Some a)
     = (if a = [] then dec hh @ 58 # fmt_02d (int mm)
        else fmt_02d (if a = s_ohu \<and> int hh < 12 then int hh + 12
                      else if a = s_ojeon \<and> int hh = 12 then 0 else int hh)
             @ 58 # fmt_02d (int mm))"
proof -
  have "py_int (dec hh) = Some (int hh)" "58 \<notin> set (dec hh)"
    using assms(1) by (simp_all add: py_int_dec no_colon_dec)
  moreover have "py_int (fmt_02d (int mm)) = Some (int mm)" "58 \<notin> set (fmt_02d (int mm))"
    using assms(2) py_int_pad [of mm] no_colon_pad [of mm] by (simp_all add: fmt_02d_nat)
  ultimately show ?thesis
    by (simp add: normalize_time_def normalize_time_body_parts)
qed

text \<open>
  Claim C6. \<open>normalize_time\<close> gives the 24-hour form of a clock time. Without a meridiem
  the input comes back as it is. When the text before the colon reads as the integer \<open>h\<close>
  and the text after it as \<open>m\<close>, the PM marker adds 12 to every hour below 12 (so to the
  hours 1 to 11) and leaves 12 and above alone, the AM marker sends hour 12 to 0 and
  leaves the other hours alone, and both numbers are printed with at least two digits
  (exactly two, zero-padded, for numbers from 0 to 99). This covers every time \<open>H:MM\<close>
  with an hour \<open>hh\<close> and a minute \<open>mm\<close> below 100 in decimal digits. When the text has not exactly two
  colon-separated parts, or a part is not a number, the input comes back as it is: no
  exception leaves the function. The four examples of the specification hold:
  12:00 PM is 12:00, 12:30 AM is 00:30, 3:00 PM is 15:00 and 7:00 without meridiem stays
  7:00.
\<close>

theorem normalize_time_24h:
  "normalize_time t None = t \<and>
   (py_int hs = Some h \<and> py_int ms = Some m \<and> 58 \<notin> set hs \<and> 58 \<notin> set ms \<longrightarrow>
      normalize_time (hs @ 58 # ms) (Some s_ohu)
        = fmt_02d (if h < 12 then h + 12 else h) @ 58 # fmt_02d m \<and>
      normalize_time (hs @ 58 # ms) (Some s_ojeon)
        = fmt_02d (if h = 12 then 0 else h) @ 58 # fmt_02d m) \<and>
   (hh < 100 \<and> mm < 100 \<longrightarrow>
      normalize_time (dec hh @ 58 # fmt_02d (int mm)) (Some s_ohu)
        = fmt_02d (if hh < 12 then int hh + 12 else int hh) @ 58 # fmt_02d (int mm) \<and>
      normalize_time (dec hh @ 58 # fmt_02d (int mm)) (Some s_ojeon)
        = fmt_02d (if hh = 12 then 0 else int hh) @ 58 # fmt_02d (int mm)) \<and>
   (length (split_on 58 t) \<noteq> 2 \<or> (\<exists>p \<in> set (split_on 58 t). py_int p = None) \<longrightarrow>
      normalize_time t ampm = t) \<and>
   (0 \<le> i \<and> i < 100 \<longrightarrow> fmt_02d i = [48 + nat i div 10, 48 + nat i mod 10]) \<and>
   normalize_time [49, 50, 58, 48, 48] (Some s_ohu) = [49, 50, 58, 48, 48] \<and>
   normalize_time [49, 50, 58, 51, 48] (Some s_ojeon) = [48, 48, 58, 51, 48] \<and>
   normalize_time [51, 58, 48, 48] (Some s_ohu) = [49, 53, 58, 48, 48] \<and>
   normalize_time [55, 58, 48, 48] None = [55, 58, 48, 48]"
proof (intro conjI impI)
  show "normalize_time t None = t" by (simp add: normalize_time_def)
next
  assume a: "py_int hs = Some h \<and> py_int ms = Some m \<and> 58 \<notin> set hs \<and> 58 \<notin> set ms"
  then show "normalize_time (hs @ 58 # ms) (Some s_ohu)
        = fmt_02d (if h < 12 then h + 12 else h) @ 58 # fmt_02d m"
    by (simp add: normalize_time_def normalize_time_body_parts s_ohu_def s_ojeon_def)
  from a show "normalize_time (hs @ 58 # ms) (Some s_ojeon)
        = fmt_02d (if h = 12 then 0 else h) @ 58 # fmt_02d m"
    by (simp add: normalize_time_def normalize_time_body_parts s_ojeon_def s_ohu_def)
next
  assume b: "hh < 100 \<and> mm < 100"
  then show "normalize_time (dec hh @ 58 # fmt_02d (int mm)) (Some s_ohu)
        = fmt_02d (if hh < 12 then int hh + 12 else int hh) @ 58 # fmt_02d (int mm)"
    by (simp add: normalize_time_token s_ohu_def s_ojeon_def)
  from b show "normalize_time (dec hh @ 58 # fmt_02d (int mm)) (Some s_ojeon)
        = fmt_02d (if hh = 12 then 0 else int hh) @ 58 # fmt_02d (int mm)"
    by (simp add: normalize_time_token s_ohu_def s_ojeon_def)
next
  assume "length (split_on 58 t) \<noteq> 2 \<or> (\<exists>p \<in> set (split_on 58 t). py_int p = None)"
  then show "normalize_time t ampm = t"
    by (simp add: normalize_time_def normalize_time_body_malformed split: option.splits)
next
  assume "0 \<le> i \<and> i < 100"
  then show "fmt_02d i = [48 + nat i div 10, 48 + nat i mod 10]"
    by (simp add: fmt_02d_two_digits)
next
  show "normalize_time [49, 50, 58, 48, 48] (Some s_ohu) = [49, 50, 58, 48, 48]"
    by (simp add: time_defs int_defs str_defs)
  show "normalize_time [49, 50, 58, 51, 48] (Some s_ojeon) = [48, 48, 58, 51, 48]"
    by (simp add: time_defs int_defs str_defs)
  show "normalize_time [51, 58, 48, 48] (Some s_ohu) = [49, 53, 58, 48, 48]"
    by (simp add: time_defs int_defs str_defs)
  show "normalize_time [55, 58, 48, 48] None = [55, 58, 48, 48]"
    by (simp add: normalize_time_def)
qed

text \<open>
  The theorem at the time 3:00 (hour text \<open>3\<close>, minute text \<open>00\<close>), at the hour 11
  and minute 5, at the malformed time \<open>7:xx\<close>, at the time 3:00 with the separator
  U+001F before it, which \<open>int\<close> rejects, and at the number 15.
\<close>

theorem normalize_time_24h_witness:
  "py_int [51] = Some 3 \<and> py_int [48, 48] = Some 0 \<and>
   58 \<notin> set [51::nat] \<and> 58 \<notin> set [48, 48::nat] \<and>
   normalize_time ([51] @ 58 # [48, 48]) (Some s_ohu) = [49, 53, 58, 48, 48] \<and>
   normalize_time ([51] @ 58 # [48, 48]) (Some s_ojeon) = [48, 51, 58, 48, 48] \<and>
   (\<exists>p \<in> set (split_on 58 [55, 58, 120, 120]). py_int p = None) \<and>
   normalize_time [55, 58, 120, 120] (Some s_ohu) = [55, 58, 120, 120] \<and>
   py_int [31, 51] = None \<and> py_int [32, 51, 160] = Some 3 \<and>
   normalize_time [31, 51, 58, 48, 48] (Some s_ohu) = [31, 51, 58, 48, 48] \<and>
   (11::nat) < 100 \<and> (5::nat) < 100 \<and>
   normalize_time (dec 11 @ 58 # fmt_02d (int 5)) (Some s_ohu) = [50, 51, 58, 48, 53] \<and>
   (0::int) \<le> 15 \<and> (15::int) < 100 \<and> fmt_02d 15 = [49, 53]"
  using normalize_time_24h [where t = "[55, 58, 120, 120]" and hs = "[51]" and h = 3
      and ms = "[48, 48]" and m = 0 and hh = 11 and mm = 5 and ampm = "Some s_ohu" and i = 15]
    normalize_time_24h [where t = "[31, 51, 58, 48, 48]" and ampm = "Some s_ohu"]
  by (simp add: int_defs fmt_02d_def dec.simps)

subsection \<open>Day expressions\<close>

lemma expand_forward:
  assumes "j < 6" "i \<le> j"
  shows "expand_days (day_cycle ! i @ 45 # day_cycle ! j) = py_slice day_cycle i (Suc j)"
proof -
  from assms have "i < 6" by simp
  from less_6_cases[OF \<open>j < 6\<close>] less_6_cases[OF \<open>i < 6\<close>] \<open>i \<le> j\<close>
  show ?thesis
    by (elim disjE; simp add: days_defs day_cycle_def str_defs)
qed

lemma expand_backward:
  assumes "i < 7" "j < i"
  shows "expand_days (day_cycle ! i @ 45 # day_cycle ! j) = []"
proof -
  from assms have "j < 7" by simp
  from less_7_cases[OF \<open>i < 7\<close>] less_7_cases[OF \<open>j < 7\<close>] \<open>j < i\<close>
  show ?thesis
    by (elim disjE; simp add: days_defs day_cycle_def str_defs)
qed

lemma expand_fallback:
  assumes "\<not> str_in s_maeil e"
    and "length (split_on 45 e) \<noteq> 2 \<or> (\<exists>p \<in> set (split_on 45 e). p \<notin> set weekdays)"
  shows "expand_days e = [e]"
proof (cases "45 \<in> set e")
  case False
  with assms(1) show ?thesis by (simp add: expand_days_def)
next
  case True
  have "expand_days_body e = None"
  proof (cases "split_on 45 e")
    case Nil
    then show ?thesis by (simp add: expand_days_body_def)
  next
    case (Cons a r)
    show ?thesis
    proof (cases r)
      case Nil
      with Cons show ?thesis by (simp add: expand_days_body_def)
    next
      case (Cons b r')
      show ?thesis
      proof (cases r')
        case Nil
        with \<open>split_on 45 e = a # r\<close> \<open>r = b # r'\<close> have sp: "split_on 45 e = [a, b]" by simp
        with assms(2) have "a \<notin> set weekdays \<or> b \<notin> set weekdays" by auto
        moreover have "s_il \<in> set weekdays" "s_juil \<in> set weekdays"
          by (simp_all add: weekdays_def)
        moreover define a' where "a' = (if a = s_il then s_juil else a)"
        moreover define b' where "b' = (if b = s_il then s_juil else b)"
        ultimately have "index_of weekdays a' = None \<or> index_of weekdays b' = None"
          by (cases "a = s_il"; cases "b = s_il"; simp add: index_of_None)
        moreover have "expand_days_body e =
            (case index_of weekdays a' of None \<Rightarrow> None
             | Some s_idx \<Rightarrow> (case index_of weekdays b' of None \<Rightarrow> None
                 | Some e_idx \<Rightarrow> Some (py_slice weekdays s_idx (e_idx + 1))))"
          unfolding expand_days_body_def sp Let_def a'_def b'_def by simp
        ultimately show ?thesis
          by (auto split: option.splits)
      next
        case (Cons c r'')
        with \<open>split_on 45 e = a # r\<close> \<open>r = b # r'\<close> show ?thesis
          by (simp add: expand_days_body_def)
      qed
    qed
  qed
  with True assms(1) show ?thesis by (simp add: expand_days_def)
qed

text \<open>
  Claim C4, as amended. For a range \<open>a-b\<close> whose endpoints are among Monday to Saturday
  with \<open>a\<close> not after \<open>b\<close>, \<open>expand_days\<close> returns the inclusive slice of the cycle from
  \<open>a\<close> to \<open>b\<close>. For valid endpoints with \<open>a\<close> after \<open>b\<close> it returns the empty sequence,
  not the original expression: the slice of the list is empty and nothing is raised, so
  the fallback is not taken. The fallback, the original expression as a one-element
  sequence, is what an expression without the daily marker gets when it does not split
  at the dash into exactly two parts or when a part is not in the list of day symbols;
  the exception of the \<open>try\<close> block never leaves the function.
\<close>

theorem expand_days_range:
  "(j < 6 \<and> i \<le> j \<longrightarrow>
      expand_days (day_cycle ! i @ 45 # day_cycle ! j) = py_slice day_cycle i (Suc j)) \<and>
   (i < 7 \<and> j < i \<longrightarrow> expand_days (day_cycle ! i @ 45 # day_cycle ! j) = []) \<and>
   (\<not> str_in s_maeil e \<and>
    (length (split_on 45 e) \<noteq> 2 \<or> (\<exists>p \<in> set (split_on 45 e). p \<notin> set weekdays)) \<longrightarrow>
      expand_days e = [e])"
  using expand_forward [of j i] expand_backward [of i j] expand_fallback [of e]
  by blast

text \<open>
  The theorem at Monday-Friday (indices 0 and 4), at Friday-Monday (4 and 0, in the second
  part) and at the expression \<open>ju-geum\<close>, whose first part is not a day symbol of the
  list.
\<close>

theorem expand_days_range_witness:
  "(4::nat) < 6 \<and> (0::nat) \<le> 4 \<and>
   expand_days (s_wol @ 45 # s_geum) = [s_wol, s_hwa, s_su, s_mok, s_geum] \<and>
   (4::nat) < 7 \<and> (0::nat) < 4 \<and> expand_days (s_geum @ 45 # s_wol) = [] \<and>
   \<not> str_in s_maeil [51452, 45, 44552] \<and>
   (\<exists>p \<in> set (split_on 45 [51452, 45, 44552]). p \<notin> set weekdays) \<and>
   expand_days [51452, 45, 44552] = [[51452, 45, 44552]]"
  using expand_days_range [of 4 0 "[51452, 45, 44552]"] expand_days_range [of 0 4 "[]"]
  by (simp add: day_cycle_def py_slice_def weekdays_def str_defs)

text \<open>
  The claim as stated fails twice. Friday-Monday, with the first endpoint after the
  second, gives the empty sequence and not the expression itself. Friday-Sunday gives
  four symbols, the short and the long symbol of Sunday both, where the inclusive slice
  of the seven-symbol cycle has three.
\<close>

theorem expand_days_range_counterexample:
  "expand_days (s_geum @ 45 # s_wol) = [] \<and>
   expand_days (s_geum @ 45 # s_wol) \<noteq> [s_geum @ 45 # s_wol] \<and>
   expand_days (s_geum @ 45 # s_juil) = [s_geum, s_to, s_il, s_juil] \<and>
   expand_days (s_geum @ 45 # s_juil) \<noteq> py_slice day_cycle 4 7"
  by (simp add: days_defs day_cycle_def str_defs)

text \<open>
  Claim C5, as amended. For every expression that contains the daily marker,
  \<open>expand_days\<close> returns seven symbols: Monday to Saturday and Sunday. Sunday is part of
  the result.
\<close>

theorem expand_days_daily:
  "str_in s_maeil e \<Longrightarrow>
     expand_days e = [s_wol, s_hwa, s_su, s_mok, s_geum, s_to, s_juil] \<and>
     s_juil \<in> set (expand_days e) \<and> length (expand_days e) = 7"
  by (simp add: expand_days_def)

theorem expand_days_daily_witness:
  "str_in s_maeil s_maeil \<and>
   expand_days s_maeil = [s_wol, s_hwa, s_su, s_mok, s_geum, s_to, s_juil] \<and>
   s_juil \<in> set (expand_days s_maeil) \<and> length (expand_days s_maeil) = 7"
  using expand_days_daily [of s_maeil]
  by (simp add: s_maeil_def)

text \<open>
  The claim as stated fails at the daily marker itself: the result has seven symbols, not
  six, and Sunday is among them.
\<close>

theorem expand_days_daily_counterexample:
  "str_in s_maeil s_maeil \<and>
   expand_days s_maeil \<noteq> [s_wol, s_hwa, s_su, s_mok, s_geum, s_to] \<and>
   s_juil \<in> set (expand_days s_maeil)"
  by (simp add: expand_days_def s_maeil_def)

section \<open>The schedule text parser\<close>

subsection \<open>Deduplication\<close>

lemma unique_keys:
  "distinct (map key_of (unique seen items)) \<and>
   (\<forall>e \<in> set (unique seen items). key_of e \<notin> set seen)"
proof (induction items arbitrary: seen)
  case Nil
  show ?case by simp
next
  case (Cons item items)
  define k where "k = key_of item"
  show ?case
  proof (cases "k \<in> set seen")
    case True
    then have "unique seen (item # items) = unique seen items"
      by (simp add: k_def Let_def)
    with Cons.IH [of seen] show ?thesis by simp
  next
    case False
    then have eq: "unique seen (item # items) = item # unique (k # seen) items"
      by (simp add: k_def Let_def)
    from Cons.IH [of "k # seen"]
    have d: "distinct (map key_of (unique (k # seen) items))"
      and n: "\<forall>e \<in> set (unique (k # seen) items). key_of e \<noteq> k \<and> key_of e \<notin> set seen"
      by simp_all
    from n have "k \<notin> key_of ` set (unique (k # seen) items)" by blast
    with d n False show ?thesis
      unfolding eq by (simp add: k_def)
  qed
qed

lemma clean_entries_keys:
  "distinct (map key_of (clean_entries cat seen es)) \<and>
   (\<forall>e \<in> set (clean_entries cat seen es). key_of e \<notin> set seen)"
proof (induction es arbitrary: seen)
  case Nil
  show ?case by simp
next
  case (Cons e0 es)
  define k where "k = entry_key (sigan (with_day cat e0)) (seolmyeong (with_day cat e0))"
  define e1 :: entry where
    "e1 = \<lparr>sigan = sigan (with_day cat e0), seolmyeong = seolmyeong (with_day cat e0)\<rparr>"
  consider (dropped) "clean_entries cat seen (e0 # es) = clean_entries cat seen es"
    | (kept) "k \<notin> set seen"
        "clean_entries cat seen (e0 # es) = e1 # clean_entries cat (k # seen) es"
    by (cases "\<exists>kw \<in> set filter_keywords. str_in kw (seolmyeong e0)"; cases "k \<in> set seen")
       (simp_all add: k_def e1_def Let_def)
  then show ?case
  proof cases
    case dropped
    with Cons.IH [of seen] show ?thesis by simp
  next
    case kept
    have k1: "key_of e1 = k" by (simp add: e1_def k_def)
    from Cons.IH [of "k # seen"]
    have d: "distinct (map key_of (clean_entries cat (k # seen) es))"
      and n: "\<forall>e \<in> set (clean_entries cat (k # seen) es). key_of e \<noteq> k \<and> key_of e \<notin> set seen"
      by simp_all
    from n have "k \<notin> key_of ` set (clean_entries cat (k # seen) es)" by blast
    with d n kept(1) k1 show ?thesis
      unfolding kept(2) by simp
  qed
qed

text \<open>Entries with different keys differ in their time or in their description.\<close>

lemma distinct_keys_pairs:
  assumes "distinct (map key_of es)"
  shows "distinct (map (\<lambda>e::entry. (sigan e, seolmyeong e)) es)"
proof -
  have "map key_of es
      = map (\<lambda>p. entry_key (fst p) (snd p)) (map (\<lambda>e. (sigan e, seolmyeong e)) es)"
    by simp
  with assms show ?thesis
    by (simp only: distinct_map)
qed

lemma unique_pairs: "distinct (map (\<lambda>e::entry. (sigan e, seolmyeong e)) (unique [] items))"
  using unique_keys [of "[]" items] by (simp add: distinct_keys_pairs)

lemma clean_entries_pairs:
  "distinct (map (\<lambda>e::entry. (sigan e, seolmyeong e)) (clean_entries cat [] es))"
  using clean_entries_keys [of cat "[]" es] by (simp add: distinct_keys_pairs)

lemma present_member:
  "(k, v) \<in> set (present cat es) \<Longrightarrow> k = Cat cat \<and> v = J_entries es \<and> es \<noteq> []"
  by (auto simp: present_def split: if_splits)

lemma daegu_categories:
  assumes "(Cat cat, v) \<in> set (parse_daegu_style text)"
  shows "\<exists>es. v = J_entries es \<and> es \<noteq> [] \<and> distinct (map (\<lambda>e. (sigan e, seolmyeong e)) es)"
proof -
  define res where "res = parse_lines Gita empty_buckets (split_on 10 (normalize_sections text))"
  have "parse_daegu_style text = (Raw_text, J_str (take 500 text))
      # concat (map (\<lambda>c. present c (clean_entries c [] (bucket res c))) categories)"
    by (simp add: parse_daegu_style_def res_def)
  with assms have
    "(Cat cat, v) \<in> set (concat (map (\<lambda>c. present c (clean_entries c [] (bucket res c))) categories))"
    by simp
  then obtain c where "(Cat cat, v) \<in> set (present c (clean_entries c [] (bucket res c)))"
    by auto
  then have "v = J_entries (clean_entries c [] (bucket res c))"
    "clean_entries c [] (bucket res c) \<noteq> []"
    by (auto dest: present_member)
  then show ?thesis
    using clean_entries_pairs [of c "bucket res c"] by blast
qed

lemma flat_categories:
  assumes "parse_flat text = Some r" "(Cat cat, v) \<in> set r"
  shows "\<exists>es. v = J_entries es \<and> es \<noteq> [] \<and> distinct (map (\<lambda>e. (sigan e, seolmyeong e)) es)"
proof -
  define items where
    "items = map (\<lambda>c. (Cat c, J_entries (bucket (flat_buckets text) c))) categories"
  from assms(1) have "r = filter (\<lambda>(k, v). truthy v) (items @ [(Raw_text, J_str (take 500 text))])"
    by (simp add: parse_flat_def items_def Let_def split: if_splits)
  with assms(2) have "truthy v" "(Cat cat, v) \<in> set items"
    by (auto split: if_splits)
  then have v: "v = J_entries (bucket (flat_buckets text) cat)"
    by (auto simp: items_def)
  have "distinct (map (\<lambda>e. (sigan e, seolmyeong e)) (bucket (flat_buckets text) cat))"
    by (cases cat) (simp_all add: flat_buckets_def Let_def unique_pairs)
  with v \<open>truthy v\<close> show ?thesis by simp
qed

text \<open>
  Claim C7. In every result of the parser, from the sectioned strategy or from the flat
  one, a value under a category key is a list of entries that is non-empty and in which
  no two entries have the same time and the same description.
\<close>

theorem parser_results_deduplicated:
  "parse_mass_times_from_text text = Some r \<Longrightarrow> (Cat cat, v) \<in> set r \<Longrightarrow>
     \<exists>es. v = J_entries es \<and> es \<noteq> [] \<and> distinct (map (\<lambda>e. (sigan e, seolmyeong e)) es)"
  using daegu_categories [of cat v "text"] flat_categories [of "text" r cat v]
  by (cases "str_in s_marker_juil text \<or> str_in s_marker_pyeongil text")
     (simp_all add: parse_mass_times_from_text_def)

text \<open>
  The theorem at a flat text that has the same time and annotation twice, and at a
  sectioned text that has the same time twice: one entry is left in each.
\<close>

theorem parser_results_deduplicated_witness:
  "parse_mass_times_from_text text_gyojung_twice =
     Some [(Cat Juil_misa,
            J_entries [\<lparr>sigan = [49, 48, 58, 48, 48], seolmyeong = s_gyojung\<rparr>]),
           (Raw_text, J_str text_gyojung_twice)] \<and>
   parse_mass_times_from_text text_sunday_twice =
     Some [(Raw_text, J_str text_sunday_twice),
           (Cat Juil_misa, J_entries [\<lparr>sigan = [49, 48, 58, 48, 48], seolmyeong = []\<rparr>])] \<and>
   (\<exists>es. J_entries [\<lparr>sigan = [49, 48, 58, 48, 48], seolmyeong = s_gyojung\<rparr>] = J_entries es \<and>
         es \<noteq> [] \<and> distinct (map (\<lambda>e. (sigan e, seolmyeong e)) es)) \<and>
   (\<exists>es. J_entries [\<lparr>sigan = [49, 48, 58, 48, 48], seolmyeong = []\<rparr>] = J_entries es \<and>
         es \<noteq> [] \<and> distinct (map (\<lambda>e. (sigan e, seolmyeong e)) es))"
  using
    parser_results_deduplicated [of text_gyojung_twice
      "[(Cat Juil_misa, J_entries [\<lparr>sigan = [49, 48, 58, 48, 48], seolmyeong = s_gyojung\<rparr>]),
        (Raw_text, J_str text_gyojung_twice)]"
      Juil_misa "J_entries [\<lparr>sigan = [49, 48, 58, 48, 48], seolmyeong = s_gyojung\<rparr>]"]
    parser_results_deduplicated [of text_sunday_twice
      "[(Raw_text, J_str text_sunday_twice),
        (Cat Juil_misa, J_entries [\<lparr>sigan = [49, 48, 58, 48, 48], seolmyeong = []\<rparr>])]"
      Juil_misa "J_entries [\<lparr>sigan = [49, 48, 58, 48, 48], seolmyeong = []\<rparr>]"]
  by (simp add: eval_defs)

subsection \<open>When the parser gives up\<close>








text \<open>
  Claim C9. A text with a section marker never gives \<open>None\<close>: the sectioned strategy
  returns a dictionary whose first key is the raw text, whatever it recognised, so
  \<open>None\<close> can only come from the flat strategy. The caller sees a true value: for such a
  text the Seoul handler takes the branch of a successful parse and attaches the search
  term.
\<close>

theorem sectioned_text_never_none:
  "(has_section_marker text \<longrightarrow>
      (\<exists>r. parse_mass_times_from_text text = Some r \<and> r \<noteq> [] \<and>
            hd r = (Raw_text, J_str (take 500 text)))) \<and>
   (parse_mass_times_from_text text = None \<longrightarrow>
      \<not> has_section_marker text \<and> parse_flat text = None) \<and>
   (has_section_marker text \<and> (str_in name text \<or> str_in s_geomsaekgyeolgwa text) \<longrightarrow>
      handle_seoul (Body_text text) name
        = Some (dict_set (parse_daegu_style text) Search_term (J_str name)))"
  by (auto simp: parse_mass_times_from_text_def has_section_marker_def
      parse_daegu_style_def handle_seoul_def Let_def)

text \<open>
  The theorem at the Sunday marker alone, in which nothing is recognised, with the marker
  itself as the search term; and at the empty text, which has no marker and gives
  \<open>None\<close>.
\<close>

theorem sectioned_text_never_none_witness:
  "has_section_marker s_marker_juil \<and>
   parse_mass_times_from_text s_marker_juil = Some [(Raw_text, J_str s_marker_juil)] \<and>
   str_in s_marker_juil s_marker_juil \<and>
   handle_seoul (Body_text s_marker_juil) s_marker_juil
     = Some [(Raw_text, J_str s_marker_juil), (Search_term, J_str s_marker_juil)] \<and>
   parse_mass_times_from_text [] = None \<and> \<not> has_section_marker [] \<and> parse_flat [] = None"
  using sectioned_text_never_none [of s_marker_juil s_marker_juil]
    sectioned_text_never_none [of "[]" "[]"]
  by (simp add: eval_defs)

subsection \<open>Scenario 1\<close>

lemma time_without_day:
  "current_days st = [] \<Longrightarrow> sec \<noteq> Juil_misa \<Longrightarrow>
     result (apply_token sec st (Time t)) = result st"
  by (simp add: Let_def)

lemma scenario1_result:
  "parse_mass_times_from_text scenario1 =
     Some [(Raw_text, J_str scenario1),
           (Cat Juil_misa, J_entries [\<lparr>sigan = [49, 48, 58, 48, 48], seolmyeong = []\<rparr>])]"
  by (simp add: eval_defs)

lemma scenario1_monday_result:
  "parse_mass_times_from_text scenario1_monday =
     Some [(Raw_text, J_str scenario1_monday),
           (Cat Juil_misa, J_entries [\<lparr>sigan = [49, 48, 58, 48, 48], seolmyeong = []\<rparr>]),
           (Cat Pyeongil_misa,
            J_entries [\<lparr>sigan = [49, 57, 58, 48, 48], seolmyeong = s_wol\<rparr>])]"
  by (simp add: eval_defs)

text \<open>
  Claim C2, as amended. For the sectioned text of scenario 1 the parser returns the raw
  text and the Sunday category with the one entry 10:00; there is no weekday category.
  Only the Sunday section has an implicit day: in any other section a time token that no
  day token precedes on its line adds no entry. With a day token before it (Monday) the
  same text gives the weekday entry 19:00, PM-normalized, with the day as description.
\<close>

theorem scenario1_sectioned:
  "parse_mass_times_from_text scenario1 =
     Some [(Raw_text, J_str scenario1),
           (Cat Juil_misa, J_entries [\<lparr>sigan = [49, 48, 58, 48, 48], seolmyeong = []\<rparr>])] \<and>
   (current_days st = [] \<and> sec \<noteq> Juil_misa \<longrightarrow>
      result (apply_token sec st (Time t)) = result st) \<and>
   parse_mass_times_from_text scenario1_monday =
     Some [(Raw_text, J_str scenario1_monday),
           (Cat Juil_misa, J_entries [\<lparr>sigan = [49, 48, 58, 48, 48], seolmyeong = []\<rparr>]),
           (Cat Pyeongil_misa,
            J_entries [\<lparr>sigan = [49, 57, 58, 48, 48], seolmyeong = s_wol\<rparr>])]"
  using scenario1_result scenario1_monday_result time_without_day [of st sec t]
  by blast

text \<open>
  The theorem at the state of a fresh line in the weekday section and the time 7:00.
\<close>

theorem scenario1_sectioned_witness:
  "current_days \<lparr>result = empty_buckets, current_ampm = Some s_ohu, current_days = [],
      last_added_entries = []\<rparr> = [] \<and>
   Pyeongil_misa \<noteq> Juil_misa \<and>
   result (apply_token Pyeongil_misa
      \<lparr>result = empty_buckets, current_ampm = Some s_ohu, current_days = [],
        last_added_entries = []\<rparr> (Time [55, 58, 48, 48])) = empty_buckets"
  using scenario1_sectioned [of
      "\<lparr>result = empty_buckets, current_ampm = Some s_ohu, current_days = [],
        last_added_entries = []\<rparr>" Pyeongil_misa "[55, 58, 48, 48]"]
  by simp

text \<open>
  The claim as stated fails on the text of scenario 1: the Sunday category has the entry
  10:00, and the weekday category has no entry with the time 19:00 (it has none at all).
\<close>

theorem scenario1_sectioned_counterexample:
  "[49, 48, 58, 48, 48]
     \<in> sigan ` set (entries_of (the (parse_mass_times_from_text scenario1)) Juil_misa) \<and>
   [49, 57, 58, 48, 48]
     \<notin> sigan ` set (entries_of (the (parse_mass_times_from_text scenario1)) Pyeongil_misa) \<and>
   entries_of (the (parse_mass_times_from_text scenario1)) Pyeongil_misa = []"
  by (simp add: scenario1_result entries_of_def)

section \<open>Dispatcher and orchestrator\<close>

subsection \<open>Inferring the diocese\<close>












lemma skip_unchanged:
  "post_church_name p = [] \<or> post_diocese p = [] \<Longrightarrow> process_post b c st (i, p) = st"
  by (auto simp: process_post_def Let_def)








subsection \<open>The statistics\<close>

lemma process_post_cases:
  "process_post b c st ip = st
   \<or> process_post b c st ip = st\<lparr>failed_posts := failed_posts st @ [snd ip]\<rparr>
   \<or> process_post b c st ip = record_failure (snd ip) (count_total st)
   \<or> (\<exists>now r. process_post b c st ip = record_success now r (snd ip) (count_total st))"
  by (simp add: process_post_def Let_def split: option.splits outcome.splits) blast

lemma process_post_consistent:
  "stats_consistent (run_stats st) \<Longrightarrow> stats_consistent (run_stats (process_post b c st ip))"
  using process_post_cases [of b c st ip]
  by (auto simp: stats_consistent_def count_total_def record_success_def record_failure_def)

lemma process_post_monotone:
  "stats_le (run_stats st) (run_stats (process_post b c st ip))"
  using process_post_cases [of b c st ip]
  by (auto simp: stats_le_def count_total_def record_success_def record_failure_def)

lemma foldl_consistent:
  "stats_consistent (run_stats st) \<Longrightarrow>
     stats_consistent (run_stats (foldl (process_post b c) st ips))"
  by (induction ips arbitrary: st) (simp_all add: process_post_consistent)

lemma stats_le_refl: "stats_le s s"
  by (simp add: stats_le_def)

lemma stats_le_trans: "stats_le s t \<Longrightarrow> stats_le t u \<Longrightarrow> stats_le s u"
  by (auto simp: stats_le_def)

lemma foldl_monotone:
  "stats_le (run_stats st) (run_stats (foldl (process_post b c) st ips))"
proof (induction ips arbitrary: st)
  case Nil
  show ?case by (simp add: stats_le_refl)
next
  case (Cons ip ips)
  show ?case
    using process_post_monotone [of st b c ip] Cons.IH [of "process_post b c st ip"]
    by (auto intro: stats_le_trans)
qed

lemma process_posts_prefix:
  assumes "m \<le> n"
  shows "process_posts b c s0 (take n posts)
     = foldl (process_post b c) (process_posts b c s0 (take m posts))
         (enumerate (length (take m posts)) (drop m (take n posts)))"
proof -
  from assms have "take n posts = take m posts @ drop m (take n posts)"
    by (metis append_take_drop_id min.absorb1 take_take)
  then have "enumerate 0 (take n posts)
      = enumerate 0 (take m posts) @ enumerate (length (take m posts)) (drop m (take n posts))"
    by (metis add_0 enumerate_append_eq)
  then show ?thesis
    by (simp add: process_posts_def)
qed

lemma no_handler_uncounted:
  "post_church_name p \<noteq> [] \<Longrightarrow> post_diocese p \<noteq> [] \<Longrightarrow> get_handler (post_diocese p) = None \<Longrightarrow>
     process_post b c st (i, p) = st\<lparr>failed_posts := failed_posts st @ [p]\<rparr>"
  by (simp add: process_post_def Let_def)

text \<open>
  Claim C10. After every record of a batch, that is after every prefix of the batch, the
  counters satisfy total = success + failed, provided they did so before the batch (they
  are all zero when the crawler is made); from a shorter prefix to a longer one no counter
  decreases. A record that is skipped for its empty name or empty diocese leaves the
  whole state as it is. A record whose diocese has no handler is appended to the failed
  list and is counted in none of the three counters.
\<close>

theorem stats_invariant:
  "(stats_consistent s0 \<longrightarrow>
      stats_consistent (run_stats (process_posts b c s0 (take n posts)))) \<and>
   (m \<le> n \<longrightarrow>
      stats_le (run_stats (process_posts b c s0 (take m posts)))
               (run_stats (process_posts b c s0 (take n posts)))) \<and>
   (post_church_name p = [] \<or> post_diocese p = [] \<longrightarrow> process_post b c st (i, p) = st) \<and>
   (post_church_name p \<noteq> [] \<and> post_diocese p \<noteq> [] \<and> get_handler (post_diocese p) = None \<longrightarrow>
      process_post b c st (i, p) = st\<lparr>failed_posts := failed_posts st @ [p]\<rparr> \<and>
      run_stats (process_post b c st (i, p)) = run_stats st)"
proof (intro conjI impI)
  assume "stats_consistent s0"
  then show "stats_consistent (run_stats (process_posts b c s0 (take n posts)))"
    by (simp add: process_posts_def foldl_consistent)
next
  assume "m \<le> n"
  then show "stats_le (run_stats (process_posts b c s0 (take m posts)))
               (run_stats (process_posts b c s0 (take n posts)))"
    by (simp only: process_posts_prefix [of m n] foldl_monotone)
next
  assume "post_church_name p = [] \<or> post_diocese p = []"
  then show "process_post b c st (i, p) = st" by (rule skip_unchanged)
next
  assume a: "post_church_name p \<noteq> [] \<and> post_diocese p \<noteq> [] \<and> get_handler (post_diocese p) = None"
  then show "process_post b c st (i, p) = st\<lparr>failed_posts := failed_posts st @ [p]\<rparr>"
    by (simp add: no_handler_uncounted)
  from a show "run_stats (process_post b c st (i, p)) = run_stats st"
    by (simp add: no_handler_uncounted)
qed

text \<open>
  The theorem at the sample batch, with a Seoul site that shows no mass times: the record
  of Seoul is counted as a success, the nameless record and the record with the unknown
  address are skipped, the record from Uijeongbu has no handler, and the handler of Busan
  raises. After the first record the counters are 1, 1, 0; after the batch 2, 1, 1.
\<close>

theorem stats_invariant_witness:
  "stats_consistent initial_stats \<and>
   run_stats (process_posts (seoul_browser (Body_text s_myeongdong)) sample_clock
      initial_stats (take 5 sample_batch)) = \<lparr>total = 2, success = 1, failed = 1\<rparr> \<and>
   stats_consistent (run_stats (process_posts (seoul_browser (Body_text s_myeongdong))
      sample_clock initial_stats (take 5 sample_batch))) \<and>
   (1::nat) \<le> 5 \<and>
   run_stats (process_posts (seoul_browser (Body_text s_myeongdong)) sample_clock
      initial_stats (take 1 sample_batch)) = \<lparr>total = 1, success = 1, failed = 0\<rparr> \<and>
   stats_le
     (run_stats (process_posts (seoul_browser (Body_text s_myeongdong)) sample_clock
        initial_stats (take 1 sample_batch)))
     (run_stats (process_posts (seoul_browser (Body_text s_myeongdong)) sample_clock
        initial_stats (take 5 sample_batch))) \<and>
   post_church_name post_nameless = [] \<and>
   process_post (seoul_browser (Body_text s_myeongdong)) sample_clock
     \<lparr>repaired_posts = [], failed_posts = [], run_stats = initial_stats\<rparr> (1, post_nameless)
     = \<lparr>repaired_posts = [], failed_posts = [], run_stats = initial_stats\<rparr> \<and>
   post_church_name post_uijeongbu \<noteq> [] \<and> post_diocese post_uijeongbu \<noteq> [] \<and>
   get_handler (post_diocese post_uijeongbu) = None \<and>
   process_post (seoul_browser (Body_text s_myeongdong)) sample_clock
     \<lparr>repaired_posts = [], failed_posts = [], run_stats = initial_stats\<rparr> (2, post_uijeongbu)
     = \<lparr>repaired_posts = [], failed_posts = [post_uijeongbu], run_stats = initial_stats\<rparr>"
  using
    stats_invariant [where ?s0.0 = initial_stats
      and b = "seoul_browser (Body_text s_myeongdong)" and c = sample_clock and n = 5
      and m = 1 and posts = sample_batch and p = post_nameless and i = 1
      and st = "\<lparr>repaired_posts = [], failed_posts = [], run_stats = initial_stats\<rparr>"]
    stats_invariant [where b = "seoul_browser (Body_text s_myeongdong)" and c = sample_clock
      and p = post_uijeongbu and i = 2
      and st = "\<lparr>repaired_posts = [], failed_posts = [], run_stats = initial_stats\<rparr>"]
  by (simp add: orch_defs post_defs eval_defs)

subsection \<open>The parser-failure marker\<close>

text \<open>
  Claim C1 says that a parser-failure marker counts as a failure. The orchestrator takes
  a result for valid when it has more than one key, and the marker of the Seoul handler
  has three: the raw text, the search term and the failure flag. For the record of Seoul
  and a result page that shows the church name and no mass times, the handler returns
  the marker, and the orchestrator stamps the record as repaired, writes it to the
  repaired output and counts a success; the failed list stays empty.
\<close>

theorem parsing_failed_marker_repaired:
  "handle_seoul (Body_text s_myeongdong) s_myeongdong
     = Some [(Raw_text, J_str s_myeongdong), (Search_term, J_str s_myeongdong),
             (Parsing_failed, J_bool True)] \<and>
   process_single_file (seoul_browser (Body_text s_myeongdong)) sample_clock None
      initial_stats (Some [post_seoul])
     = (Some [post_seoul\<lparr>
                repaired_mass_times := Some (parsing_failed_marker s_myeongdong s_myeongdong),
                repair_source := Some s_holy_repair_crawler,
                repair_timestamp := Some (sample_clock 0)\<rparr>],
        \<lparr>repaired_posts =
           [post_seoul\<lparr>
              repaired_mass_times := Some (parsing_failed_marker s_myeongdong s_myeongdong),
              repair_source := Some s_holy_repair_crawler,
              repair_timestamp := Some (sample_clock 0)\<rparr>],
         failed_posts = [],
         run_stats = \<lparr>total = 1, success = 1, failed = 0\<rparr>\<rparr>)"
  by (simp add: orch_defs post_defs eval_defs)

end
